theory Spec2Isabelle
  imports Main "HOL-Library.Word" "HOL-Library.Char_ord" "HOL-Library.List_Lexorder"
    "HOL-Library.AList"
begin

unbundle bit_operations_syntax

section \<open>Library functions the plugin calls\<close>

subsection \<open>crypto/sha256 and the \<open>%x\<close> rendering of a digest\<close>

text \<open>
  \<open>generateCacheKey\<close> feeds bytes into \<open>sha256.New()\<close> and prints \<open>hasher.Sum(nil)\<close>
  with \<open>fmt.Sprintf("%x", ...)\<close>. The digest is SHA-256 as in FIPS 180-4, on 32-bit words.
\<close>

definition rotr :: "nat \<Rightarrow> 32 word \<Rightarrow> 32 word" where
  "rotr n x = drop_bit n x OR push_bit (32 - n) x"

definition Ch :: "32 word \<Rightarrow> 32 word \<Rightarrow> 32 word \<Rightarrow> 32 word" where
  "Ch x y z = (x AND y) XOR (NOT x AND z)"

definition Maj :: "32 word \<Rightarrow> 32 word \<Rightarrow> 32 word \<Rightarrow> 32 word" where
  "Maj x y z = (x AND y) XOR (x AND z) XOR (y AND z)"

definition bsig0 :: "32 word \<Rightarrow> 32 word" where
  "bsig0 x = rotr 2 x XOR rotr 13 x XOR rotr 22 x"

definition bsig1 :: "32 word \<Rightarrow> 32 word" where
  "bsig1 x = rotr 6 x XOR rotr 11 x XOR rotr 25 x"

definition ssig0 :: "32 word \<Rightarrow> 32 word" where
  "ssig0 x = rotr 7 x XOR rotr 18 x XOR drop_bit 3 x"

definition ssig1 :: "32 word \<Rightarrow> 32 word" where
  "ssig1 x = rotr 17 x XOR rotr 19 x XOR drop_bit 10 x"

text \<open>The round constants and the initial hash value of FIPS 180-4, in decimal.\<close>

definition K256 :: "32 word list" where
  "K256 = [
  1116352408, 1899447441, 3049323471, 3921009573, 961987163, 1508970993, 2453635748, 2870763221,
  3624381080, 310598401, 607225278, 1426881987, 1925078388, 2162078206, 2614888103, 3248222580,
  3835390401, 4022224774, 264347078, 604807628, 770255983, 1249150122, 1555081692, 1996064986,
  2554220882, 2821834349, 2952996808, 3210313671, 3336571891, 3584528711, 113926993, 338241895,
  666307205, 773529912, 1294757372, 1396182291, 1695183700, 1986661051, 2177026350, 2456956037,
  2730485921, 2820302411, 3259730800, 3345764771, 3516065817, 3600352804, 4094571909, 275423344,
  430227734, 506948616, 659060556, 883997877, 958139571, 1322822218, 1537002063, 1747873779,
  1955562222, 2024104815, 2227730452, 2361852424, 2428436474, 2756734187, 3204031479, 3329325298]"

definition H256 :: "32 word list" where
  "H256 = [1779033703, 3144134277, 1013904242, 2773480762,
           1359893119, 2600822924, 528734635, 1541459225]"

text \<open>Big-endian packing of the padded message into 32-bit words.\<close>

fun be32 :: "8 word list \<Rightarrow> 32 word list" where
  "be32 (a # b # c # d # r) =
     (push_bit 24 (ucast a) OR push_bit 16 (ucast b) OR push_bit 8 (ucast c) OR ucast d) # be32 r"
| "be32 _ = []"

text \<open>Padding: the byte 0x80, zeros up to 56 modulo 64, then the bit length on 64 bits.\<close>

definition sha_pad :: "8 word list \<Rightarrow> 8 word list" where
  "sha_pad m =
     (let l = length m;
          z = (55 + 64 - l mod 64) mod 64;
          bits = (word_of_nat (8 * l) :: 64 word)
      in m @ [0x80] @ replicate z 0 @ map (\<lambda>i. ucast (drop_bit (8 * (7 - i)) bits)) [0..<8])"

text \<open>
  The message schedule, kept most recent word first: each new word is computed from the
  words 2, 7, 15 and 16 places back.
\<close>

fun sha_schedule :: "nat \<Rightarrow> 32 word list \<Rightarrow> 32 word list" where
  "sha_schedule 0 w = w"
| "sha_schedule (Suc n) w =
     sha_schedule n ((ssig1 (w ! 1) + w ! 6 + ssig0 (w ! 14) + w ! 15) # w)"

fun sha_rounds :: "32 word list \<Rightarrow> 32 word list \<Rightarrow> 32 word list \<Rightarrow> 32 word list" where
  "sha_rounds (k # ks) (w # ws) [a, b, c, d, e, f, g, h] =
     (let t1 = h + bsig1 e + Ch e f g + k + w;
          t2 = bsig0 a + Maj a b c
      in sha_rounds ks ws [t1 + t2, a, b, c, d + t1, e, f, g])"
| "sha_rounds _ _ s = s"

definition sha_block :: "32 word list \<Rightarrow> 32 word list \<Rightarrow> 32 word list" where
  "sha_block hs ws = map2 (+) hs (sha_rounds K256 (rev (sha_schedule 48 (rev ws))) hs)"

fun sha_blocks :: "32 word list \<Rightarrow> 32 word list \<Rightarrow> 32 word list" where
  "sha_blocks hs ws =
     (if length ws < 16 then hs else sha_blocks (sha_block hs (take 16 ws)) (drop 16 ws))"

definition sha256 :: "string \<Rightarrow> 32 word list" where
  "sha256 m = sha_blocks H256 (be32 (sha_pad (map of_char m)))"

definition hexdigit :: "nat \<Rightarrow> char" where
  "hexdigit n = ''0123456789abcdef'' ! (n mod 16)"

definition hex32 :: "32 word \<Rightarrow> string" where
  "hex32 w = map (\<lambda>i. hexdigit (unat (drop_bit (4 * (7 - i)) w AND 15))) [0..<8]"

text \<open>\<open>fmt.Sprintf("%x", digest)\<close>: 64 lower-case hexadecimal digits.\<close>

definition sprintf_x :: "32 word list \<Rightarrow> string" where
  "sprintf_x ws = concat (map hex32 ws)"

subsection \<open>strings and net/url\<close>

text \<open>\<open>strings.Cut(s, sep)\<close> for a one-byte separator: the text before and after its first
  occurrence (all of \<open>s\<close> and the empty string when it does not occur).\<close>

definition cutBefore :: "char \<Rightarrow> string \<Rightarrow> string" where
  "cutBefore c s = takeWhile (\<lambda>x. x \<noteq> c) s"

definition cutAfter :: "char \<Rightarrow> string \<Rightarrow> string" where
  "cutAfter c s = drop 1 (dropWhile (\<lambda>x. x \<noteq> c) s)"

definition ishex :: "char \<Rightarrow> bool" where
  "ishex c = (c \<in> set ''0123456789abcdefABCDEF'')"

definition unhex :: "char \<Rightarrow> nat" where
  "unhex c =
     (let n = (of_char c :: nat) in
      if 48 \<le> n \<and> n \<le> 57 then n - 48
      else if 97 \<le> n \<and> n \<le> 102 then n - 97 + 10
      else if 65 \<le> n \<and> n \<le> 70 then n - 65 + 10
      else 0)"

text \<open>
  \<open>url.QueryUnescape\<close>: \<open>%XX\<close> becomes the byte, \<open>+\<close> becomes a space; a \<open>%\<close> that is not
  followed by two hexadecimal digits is an \<open>EscapeError\<close> (here \<open>None\<close>).
\<close>

fun QueryUnescape :: "string \<Rightarrow> string option" where
  "QueryUnescape [] = Some []"
| "QueryUnescape (c # cs) =
     (if c = CHR ''%'' then
        (case cs of
           h1 # h2 # r \<Rightarrow>
             (if ishex h1 \<and> ishex h2
              then map_option ((#) (char_of (unhex h1 * 16 + unhex h2))) (QueryUnescape r)
              else None)
         | _ \<Rightarrow> None)
      else if c = CHR ''+'' then map_option ((#) CHR '' '') (QueryUnescape cs)
      else map_option ((#) c) (QueryUnescape cs))"

definition upperhex :: "nat \<Rightarrow> char" where
  "upperhex n = ''0123456789ABCDEF'' ! (n mod 16)"

definition unreserved :: "char \<Rightarrow> bool" where
  "unreserved c =
     (let n = (of_char c :: nat) in
      (97 \<le> n \<and> n \<le> 122) \<or> (65 \<le> n \<and> n \<le> 90) \<or> (48 \<le> n \<and> n \<le> 57)
      \<or> c \<in> set ''-_.~'')"

text \<open>\<open>url.QueryEscape\<close>: everything but letters, digits and \<open>-_.~\<close> is escaped, a space
  as \<open>+\<close>.\<close>

fun QueryEscape :: "string \<Rightarrow> string" where
  "QueryEscape [] = []"
| "QueryEscape (c # cs) =
     (if unreserved c then c # QueryEscape cs
      else if c = CHR '' '' then CHR ''+'' # QueryEscape cs
      else CHR ''%'' # upperhex (of_char c div 16) # upperhex (of_char c mod 16) # QueryEscape cs)"

text \<open>
  A Go \<open>map[string][]string\<close> (\<open>url.Values\<close>, \<open>http.Header\<close>) is an association
  list with one entry per key. The list gives the entries in the order in which a
  \<open>range\<close> loop over the map yields them; Go leaves that order unspecified, so two lists
  with the same \<open>map_of\<close> are the same Go map.
\<close>

type_synonym Values = "(string \<times> string list) list"

text \<open>\<open>m[k]\<close>: the values under a key, the nil slice when the key is absent.\<close>

definition mapIndex :: "Values \<Rightarrow> string \<Rightarrow> string list" where
  "mapIndex m k = (case map_of m k of None \<Rightarrow> [] | Some vs \<Rightarrow> vs)"

text \<open>\<open>m[k] = append(m[k], v)\<close>\<close>

definition values_append :: "Values \<Rightarrow> string \<Rightarrow> string \<Rightarrow> Values" where
  "values_append m k v = AList.update k (mapIndex m k @ [v]) m"

definition Del :: "Values \<Rightarrow> string \<Rightarrow> Values" where
  "Del m k = AList.delete k m"

text \<open>
  \<open>url.ParseQuery\<close> as \<open>URL.Query()\<close> uses it: the error is dropped and the pairs that
  parsed are kept. A pair holding a semicolon, an empty pair, and a pair whose key or value
  does not unescape are skipped.
\<close>

function parseQuery :: "Values \<Rightarrow> string \<Rightarrow> Values" where
  "parseQuery m query =
     (if query = [] then m
      else
        let key = cutBefore CHR ''&'' query;
            rest = cutAfter CHR ''&'' query
        in if CHR '';'' \<in> set key then parseQuery m rest
           else if key = [] then parseQuery m rest
           else
             (case QueryUnescape (cutBefore CHR ''='' key) of
                None \<Rightarrow> parseQuery m rest
              | Some k \<Rightarrow>
                  (case QueryUnescape (cutAfter CHR ''='' key) of
                     None \<Rightarrow> parseQuery m rest
                   | Some v \<Rightarrow> parseQuery (values_append m k v) rest)))"
  by pat_completeness auto
termination
proof -
  have shorter: "length (cutAfter c q) < length q" if "q \<noteq> []" for c :: char and q
  proof -
    from that have "0 < length q" by simp
    moreover have "length (dropWhile (\<lambda>x. x \<noteq> c) q) \<le> length q"
      by (rule length_dropWhile_le)
    ultimately show ?thesis
      unfolding cutAfter_def length_drop by arith
  qed
  show ?thesis
    by (relation "measure (\<lambda>(m, q). length q)") (auto simp add: shorter)
qed

declare parseQuery.simps [simp del]

definition joinAmp :: "string list \<Rightarrow> string" where
  "joinAmp ps = (case ps of [] \<Rightarrow> [] | p # r \<Rightarrow> foldl (\<lambda>buf x. buf @ CHR ''&'' # x) p r)"

text \<open>
  \<open>Values.Encode\<close>: the keys sorted as byte strings, each value as \<open>key=value\<close>, both
  escaped, joined by \<open>&\<close>.
\<close>

definition Encode :: "Values \<Rightarrow> string" where
  "Encode v =
     joinAmp (concat (map (\<lambda>k. map (\<lambda>x. QueryEscape k @ CHR ''='' # QueryEscape x) (mapIndex v k))
                          (sort (map fst v))))"

text \<open>
  A parsed \<open>url.URL\<close>, reduced to what \<open>removeTrackingParams\<close> reads and writes:
  \<open>RawQuery\<close> and \<open>ForceQuery\<close>, and the two strings \<open>URL.String()\<close> prints around the
  query: \<open>BeforeQuery\<close> (scheme, opaque part or authority, escaped path) and
  \<open>AfterQuery\<close> (\<open>#\<close> and the escaped fragment, or nothing). Neither depends on the
  query fields.
\<close>

record URL =
  BeforeQuery :: string
  ForceQuery :: bool
  RawQuery :: string
  AfterQuery :: string

definition String :: "URL \<Rightarrow> string" where
  "String u =
     BeforeQuery u
     @ (if ForceQuery u \<or> RawQuery u \<noteq> [] then CHR ''?'' # RawQuery u else [])
     @ AfterQuery u"

definition Query :: "URL \<Rightarrow> Values" where
  "Query u = parseQuery [] (RawQuery u)"

text \<open>
  \<open>url.Parse\<close> itself is a parameter of the model: a function from the text to an error
  message or a \<open>URL\<close>.
\<close>

type_synonym url_Parse = "string \<Rightarrow> string + URL"

subsection \<open>net/http\<close>

type_synonym Header = Values

definition validHeaderFieldByte :: "char \<Rightarrow> bool" where
  "validHeaderFieldByte c =
     (let n = (of_char c :: nat) in
      (97 \<le> n \<and> n \<le> 122) \<or> (65 \<le> n \<and> n \<le> 90) \<or> (48 \<le> n \<and> n \<le> 57)
      \<or> c \<in> set ''!#$%&*+-.^_`|~'' \<or> n = 39)"

definition toUpper :: "char \<Rightarrow> char" where
  "toUpper c = (let n = (of_char c :: nat) in if 97 \<le> n \<and> n \<le> 122 then char_of (n - 32) else c)"

definition toLower :: "char \<Rightarrow> char" where
  "toLower c = (let n = (of_char c :: nat) in if 65 \<le> n \<and> n \<le> 90 then char_of (n + 32) else c)"

fun canonicalize :: "bool \<Rightarrow> string \<Rightarrow> string" where
  "canonicalize upper [] = []"
| "canonicalize upper (c # cs) =
     (let c' = (if upper then toUpper c else toLower c)
      in c' # canonicalize (c' = CHR ''-'') cs)"

text \<open>
  \<open>textproto.CanonicalMIMEHeaderKey\<close>: a key with a byte that is not a token byte is
  returned as it is; otherwise the first letter and every letter after a dash are upper
  case, the others lower case.
\<close>

definition CanonicalMIMEHeaderKey :: "string \<Rightarrow> string" where
  "CanonicalMIMEHeaderKey s = (if list_all validHeaderFieldByte s then canonicalize True s else s)"

definition Header_Add :: "Header \<Rightarrow> string \<Rightarrow> string \<Rightarrow> Header" where
  "Header_Add h key v =
     (let k = CanonicalMIMEHeaderKey key in AList.update k (mapIndex h k @ [v]) h)"

definition Header_Set :: "Header \<Rightarrow> string \<Rightarrow> string \<Rightarrow> Header" where
  "Header_Set h key v = AList.update (CanonicalMIMEHeaderKey key) [v] h"

text \<open>
  An incoming \<open>*http.Request\<close>. \<open>Body\<close> is what the body stream delivers to the one who
  reads it, \<open>BodyErr\<close> the error the reads end with (\<open>None\<close> for a clean end of file),
  and \<open>BodyClosed\<close> whether \<open>Body.Close()\<close> has been called. The stream can be read
  once: a byte one reader has received is not delivered to another.
\<close>

record request =
  Method :: string
  RequestURI :: string
  Header :: Header
  Host :: string
  RemoteAddr :: string
  ContentLength :: "64 word"
  Body :: string
  BodyErr :: "string option"
  BodyClosed :: bool

text \<open>An \<open>*http.Response\<close>: status code, headers and the bytes its body delivers.\<close>

record response =
  StatusCode :: int
  RespHeader :: Header
  RespBody :: string

text \<open>
  The \<open>http.ResponseWriter\<close> of the exchange with the client: its header map, the status
  written with \<open>WriteHeader\<close> (\<open>None\<close> while nothing has been written) and the body
  bytes written so far.
\<close>

record ResponseWriter =
  rwHeader :: Header
  rwStatus :: "int option"
  rwBody :: string

text \<open>
  \<open>WriteHeader\<close> panics on a code outside 100..999 (\<open>None\<close>); a second call leaves the
  status as it is.
\<close>

definition WriteHeader :: "int \<Rightarrow> ResponseWriter \<Rightarrow> ResponseWriter option" where
  "WriteHeader code rw =
     (if code < 100 \<or> code > 999 then None
      else Some (if rwStatus rw = None then rw\<lparr>rwStatus := Some code\<rparr> else rw))"

text \<open>\<open>Write\<close>: the first write sends status 200 when none was written.\<close>

definition Write :: "string \<Rightarrow> ResponseWriter \<Rightarrow> ResponseWriter" where
  "Write bs rw =
     (let rw' = (if rwStatus rw = None then rw\<lparr>rwStatus := Some 200\<rparr> else rw)
      in rw'\<lparr>rwBody := rwBody rw' @ bs\<rparr>)"

text \<open>\<open>io.Copy(rw, body)\<close>: an empty body is no write at all.\<close>

definition io_Copy :: "ResponseWriter \<Rightarrow> string \<Rightarrow> ResponseWriter" where
  "io_Copy rw body = (if body = [] then rw else Write body rw)"

text \<open>What the client receives when the handler returns: status 200 if none was written.\<close>

definition clientStatus :: "ResponseWriter \<Rightarrow> int" where
  "clientStatus rw = (case rwStatus rw of None \<Rightarrow> 200 | Some code \<Rightarrow> code)"

definition StatusRequestEntityTooLarge :: int where
  "StatusRequestEntityTooLarge = 413"

definition StatusBadGateway :: int where
  "StatusBadGateway = 502"

text \<open>
  \<open>http.Error(rw, msg, code)\<close>: two headers, the status, and the message followed by a
  newline. The plugin only calls it with the codes 413 and 502.
\<close>

definition http_Error :: "ResponseWriter \<Rightarrow> string \<Rightarrow> int \<Rightarrow> ResponseWriter" where
  "http_Error rw msg code =
     (let h = Header_Set (rwHeader rw) ''Content-Type'' ''text/plain; charset=utf-8'';
          h' = Header_Set h ''X-Content-Type-Options'' ''nosniff'';
          rw1 = rw\<lparr>rwHeader := h'\<rparr>;
          rw2 = (if rwStatus rw1 = None then rw1\<lparr>rwStatus := Some code\<rparr> else rw1)
      in Write (msg @ [CHR 0x0A]) rw2)"

definition statusTexts :: "(int \<times> string) list" where
  "statusTexts = [
    (100, ''Continue''), (101, ''Switching Protocols''), (102, ''Processing''),
    (103, ''Early Hints''),
    (200, ''OK''), (201, ''Created''), (202, ''Accepted''),
    (203, ''Non-Authoritative Information''), (204, ''No Content''), (205, ''Reset Content''),
    (206, ''Partial Content''), (207, ''Multi-Status''), (208, ''Already Reported''),
    (226, ''IM Used''),
    (300, ''Multiple Choices''), (301, ''Moved Permanently''), (302, ''Found''),
    (303, ''See Other''), (304, ''Not Modified''), (305, ''Use Proxy''),
    (307, ''Temporary Redirect''), (308, ''Permanent Redirect''),
    (400, ''Bad Request''), (401, ''Unauthorized''), (402, ''Payment Required''),
    (403, ''Forbidden''), (404, ''Not Found''), (405, ''Method Not Allowed''),
    (406, ''Not Acceptable''), (407, ''Proxy Authentication Required''),
    (408, ''Request Timeout''), (409, ''Conflict''), (410, ''Gone''),
    (411, ''Length Required''), (412, ''Precondition Failed''),
    (413, ''Request Entity Too Large''), (414, ''Request URI Too Long''),
    (415, ''Unsupported Media Type''), (416, ''Requested Range Not Satisfiable''),
    (417, ''Expectation Failed''), (418, ''I'' @ [CHR 0x27] @ ''m a teapot''),
    (421, ''Misdirected Request''), (422, ''Unprocessable Entity''), (423, ''Locked''),
    (424, ''Failed Dependency''), (425, ''Too Early''), (426, ''Upgrade Required''),
    (428, ''Precondition Required''), (429, ''Too Many Requests''),
    (431, ''Request Header Fields Too Large''), (451, ''Unavailable For Legal Reasons''),
    (500, ''Internal Server Error''), (501, ''Not Implemented''), (502, ''Bad Gateway''),
    (503, ''Service Unavailable''), (504, ''Gateway Timeout''),
    (505, ''HTTP Version Not Supported''), (506, ''Variant Also Negotiates''),
    (507, ''Insufficient Storage''), (508, ''Loop Detected''), (510, ''Not Extended''),
    (511, ''Network Authentication Required'')]"

text \<open>\<open>http.StatusText\<close>: the phrase of a known code, the empty string otherwise.\<close>

definition StatusText :: "int \<Rightarrow> string" where
  "StatusText code = (case map_of statusTexts code of None \<Rightarrow> [] | Some t \<Rightarrow> t)"

text \<open>
  \<open>http.MaxBytesReader(rw, body, n)\<close> read to its end by \<open>io.Copy(ioutil.Discard, ...)\<close>:
  the number of bytes copied and the error. A negative limit counts as 0; a body longer
  than the limit gives the limit and the error \<open>http: request body too large\<close>.
\<close>

definition copyMaxBytes :: "64 word \<Rightarrow> string \<Rightarrow> string option \<Rightarrow> 64 word \<times> string option" where
  "copyMaxBytes n body bodyErr =
     (let limit = (if sint n < 0 then 0 else nat (sint n))
      in if length body > limit then (word_of_nat limit, Some ''http: request body too large'')
         else (word_of_nat (length body), bodyErr))"

text \<open>
  The number of bytes this takes from the stream: the reader asks for one byte more than
  the limit, to tell a body at the limit from a longer one.
\<close>

definition maxBytesRead :: "64 word \<Rightarrow> string \<Rightarrow> nat" where
  "maxBytesRead n body =
     (let limit = (if sint n < 0 then 0 else nat (sint n))
      in min (length body) (limit + 1))"

text \<open>
  The request an \<open>http.Client\<close> sends: method, URL, headers, and the body stream it was
  given, as the bytes that stream delivers to the client's reads and the error those
  reads end with (\<open>None\<close> for a clean end of file). The client has a timeout
  (nanoseconds); \<open>Do\<close> is the outcome of sending a request, a transport error or the
  response of the server.
\<close>

record proxy_request =
  pMethod :: string
  pURL :: string
  pHeader :: Header
  pBody :: string
  pBodyErr :: "string option"

record Client =
  Timeout :: "64 word"
  Do :: "proxy_request \<Rightarrow> string + response"

text \<open>\<open>http.NewRequestWithContext\<close> refuses a method that is not a token and a URL that
  \<open>url.Parse\<close> refuses.\<close>

definition validMethod :: "string \<Rightarrow> bool" where
  "validMethod method = (method \<noteq> [] \<and> list_all validHeaderFieldByte method)"

definition NewRequestWithContext ::
  "url_Parse \<Rightarrow> string \<Rightarrow> string \<Rightarrow> string \<Rightarrow> string option
   \<Rightarrow> string + proxy_request" where
  "NewRequestWithContext parse method url body bodyErr =
     (let method' = (if method = [] then ''GET'' else method)
      in if \<not> validMethod method' then Inl ''net/http: invalid method''
         else (case parse url of
                 Inl err \<Rightarrow> Inl err
               | Inr u \<Rightarrow>
                   Inr \<lparr>pMethod = method', pURL = url, pHeader = [], pBody = body,
                        pBodyErr = bodyErr\<rparr>))"

subsection \<open>patrickmn/go-cache and sync.Pool\<close>

text \<open>
  A cache item holds the stored object (the plugin only stores status codes) and the time,
  in nanoseconds, after which it is expired (0: never). \<open>Get\<close> does not return an expired
  item; \<open>SetDefault\<close> stores with the default time-to-live of the cache.
\<close>

record Item =
  Object :: int
  Expiration :: int

record Cache =
  defaultExpiration :: int
  items :: "string \<rightharpoonup> Item"

definition cache_New :: "int \<Rightarrow> int \<Rightarrow> Cache" where
  "cache_New defaultExp cleanupInterval = \<lparr>defaultExpiration = defaultExp, items = Map.empty\<rparr>"

definition cache_Get :: "Cache \<Rightarrow> int \<Rightarrow> string \<Rightarrow> int option" where
  "cache_Get c now k =
     (case items c k of
        None \<Rightarrow> None
      | Some item \<Rightarrow>
          if Expiration item > 0 \<and> now > Expiration item then None else Some (Object item))"

definition cache_SetDefault :: "Cache \<Rightarrow> int \<Rightarrow> string \<Rightarrow> int \<Rightarrow> Cache" where
  "cache_SetDefault c now k x =
     (let d = defaultExpiration c;
          e = (if d > 0 then now + d else 0)
      in c\<lparr>items := (items c)(k \<mapsto> \<lparr>Object = x, Expiration = e\<rparr>)\<rparr>)"

definition Second :: int where
  "Second = 1000000000"

definition Minute :: int where
  "Minute = 60 * Second"

text \<open>
  What the plugin mutates: the verdict cache \<open>a.cache\<close> points to; the responses it holds
  pointers to, as a store from addresses to \<open>http.Response\<close> objects (\<open>allocated\<close>
  addresses are in use); the free list of the package variable \<open>cacheResponsePool\<close>; the
  clock that \<open>time.Now()\<close> reads; and, for the statements about what is called, the list
  of calls made so far.
\<close>

datatype event =
    EvaluationCall proxy_request
  | BackendCall request
  | CacheGet string
  | CacheSet string int

record world =
  cache :: Cache
  heap :: "nat \<Rightarrow> response"
  allocated :: nat
  pool :: "nat list"
  now :: int
  trace :: "event list"

definition emit :: "event \<Rightarrow> world \<Rightarrow> world" where
  "emit e s = s\<lparr>trace := trace s @ [e]\<rparr>"

text \<open>A new object at a fresh address.\<close>

definition alloc :: "response \<Rightarrow> world \<Rightarrow> nat \<times> world" where
  "alloc r s = (allocated s, s\<lparr>heap := (heap s)(allocated s := r), allocated := Suc (allocated s)\<rparr>)"

text \<open>
  \<open>cacheResponsePool.Get()\<close>: an object of the free list when there is one, otherwise the
  result of \<open>New\<close>, a response with an empty header map. \<open>Put\<close> adds to the free list.
  (A \<open>sync.Pool\<close> may also drop an object it holds; the free list here never does.)
\<close>

definition pool_Get :: "world \<Rightarrow> nat \<times> world" where
  "pool_Get s =
     (case pool s of
        [] \<Rightarrow> alloc \<lparr>StatusCode = 0, RespHeader = [], RespBody = []\<rparr> s
      | p # ps \<Rightarrow> (p, s\<lparr>pool := ps\<rparr>))"

definition pool_Put :: "nat \<Rightarrow> world \<Rightarrow> world" where
  "pool_Put p s = s\<lparr>pool := p # pool s\<rparr>"

section \<open>modesecurity_helpers.go\<close>

text \<open>Go's \<open>%\<close> on \<open>int\<close> truncates towards zero.\<close>

definition go_rem :: "int \<Rightarrow> int \<Rightarrow> int" where
  "go_rem a b = sgn a * (\<bar>a\<bar> mod \<bar>b\<bar>)"

text \<open>\<open>p != nil && *p\<close> for a \<open>*bool\<close>.\<close>

definition isTrue :: "bool option \<Rightarrow> bool" where
  "isTrue p = (case p of None \<Rightarrow> False | Some b \<Rightarrow> b)"

fun contains :: "string list \<Rightarrow> string \<Rightarrow> bool" where
  "contains [] method = False"
| "contains (m # methods) method = (if m = method then True else contains methods method)"

definition trackingParams :: "string list" where
  "trackingParams = [
    ''fbclid'', ''gclid'', ''gclsrc'', ''dclid'', ''utm_content'', ''utm_term'',
    ''utm_campaign'', ''utm_medium'', ''utm_source'', ''utm_id'', ''_ga'', ''mc_cid'',
    ''mc_eid'', ''_bta_tid'', ''_bta_c'', ''trk_contact'', ''trk_msg'', ''trk_module'',
    ''trk_sid'', ''gdfms'', ''gdftrk'', ''gdffi'', ''_ke'', ''redirect_log_mongo_id'',
    ''redirect_mongo_id'', ''sb_referer_host'', ''mkwid'', ''pcrid'', ''ef_id'', ''s_kwcid'',
    ''msclkid'', ''dm_i'', ''epik'', ''pk_campaign'', ''pk_kwd'', ''pk_keyword'',
    ''piwik_campaign'', ''piwik_kwd'', ''piwik_keyword'', ''mtm_campaign'', ''mtm_keyword'',
    ''mtm_source'', ''mtm_medium'', ''mtm_content'', ''mtm_cid'', ''mtm_group'',
    ''mtm_placement'', ''matomo_campaign'', ''matomo_keyword'', ''matomo_source'',
    ''matomo_medium'', ''matomo_content'', ''matomo_cid'', ''matomo_group'',
    ''matomo_placement'', ''hsa_cam'', ''hsa_grp'', ''hsa_mt'', ''hsa_src'', ''hsa_ad'',
    ''hsa_acc'', ''hsa_net'', ''hsa_kw'', ''hsa_tgt'', ''hsa_ver'']"

definition removeTrackingParams :: "url_Parse \<Rightarrow> string \<Rightarrow> string" where
  "removeTrackingParams parse inputURL =
     (case parse inputURL of
        Inl err \<Rightarrow> inputURL
      | Inr parsedURL \<Rightarrow>
          let query = foldl Del (Query parsedURL) trackingParams
          in String (parsedURL\<lparr>RawQuery := Encode query\<rparr>))"

definition isWebsocket :: "request \<Rightarrow> bool" where
  "isWebsocket req = contains (mapIndex (Header req) ''Upgrade'') ''websocket''"

section \<open>modesecurity_cache.go\<close>

record CacheKeyConditions =
  Methods :: "string list"
  NoBody :: "bool option"

record CacheKeyOptions =
  IncludeMethod :: "bool option"
  IncludeRequestURI :: "bool option"
  IncludeHeaders :: "bool option"
  Headers :: "string list"
  MatchAllHeaders :: "bool option"
  IncludeHost :: "bool option"
  IncludeRemoteAddress :: "bool option"

definition Check :: "CacheKeyConditions \<Rightarrow> request \<Rightarrow> bool" where
  "Check c req =
     (if length (Methods c) > 0 \<and> \<not> contains (Methods c) (Method req) then False
      else if (case NoBody c of None \<Rightarrow> False | Some b \<Rightarrow> b \<noteq> (ContentLength req = 0)) then False
      else True)"

definition newPooledCacheResponse :: "int \<Rightarrow> string \<Rightarrow> world \<Rightarrow> nat \<times> world" where
  "newPooledCacheResponse statusCode body s =
     (let (resp, s1) = pool_Get s;
          statusText = (if length body > 0 then body else StatusText statusCode);
          r = heap s1 resp;
          r' = r\<lparr>StatusCode := statusCode, RespBody := body,
                 RespHeader := Header_Set (RespHeader r) ''Status-Text'' statusText\<rparr>
      in (resp, s1\<lparr>heap := (heap s1)(resp := r')\<rparr>))"

text \<open>\<open>resp.Body.Close()\<close> on the \<open>ioutil.NopCloser\<close> of a pooled response does nothing.\<close>

definition putResponse :: "nat \<Rightarrow> world \<Rightarrow> world" where
  "putResponse resp s =
     pool_Put resp (s\<lparr>heap := (heap s)(resp := (heap s resp)\<lparr>RespHeader := []\<rparr>)\<rparr>)"

text \<open>The bytes \<open>generateCacheKey\<close> writes to the hasher for the headers of one loop.\<close>

definition headerBytes :: "Header \<Rightarrow> string" where
  "headerBytes h = concat (map (\<lambda>(key, values). key @ concat values) h)"

definition hasherInput :: "url_Parse \<Rightarrow> request \<Rightarrow> CacheKeyOptions \<Rightarrow> string" where
  "hasherInput parse req options =
     (if isTrue (IncludeMethod options) then Method req else [])
     @ (if isTrue (IncludeRequestURI options)
        then removeTrackingParams parse (RequestURI req) else [])
     @ (if isTrue (IncludeHeaders options) then
          (if isTrue (MatchAllHeaders options) then headerBytes (Header req)
           else headerBytes (filter (\<lambda>(key, values). key \<in> set (Headers options)) (Header req)))
        else [])
     @ (if isTrue (IncludeHost options) then Host req else [])
     @ (if isTrue (IncludeRemoteAddress options) then RemoteAddr req else [])"

definition generateCacheKey :: "url_Parse \<Rightarrow> request \<Rightarrow> CacheKeyOptions \<Rightarrow> string" where
  "generateCacheKey parse req options = sprintf_x (sha256 (hasherInput parse req options))"

section \<open>modsecurity.go\<close>

record Config =
  TimeoutMillis :: "64 word"
  ModSecurityUrl :: string
  MaxBodySize :: "64 word"
  CacheEnabled :: "bool option"
  CacheConditionsMethods :: "string list"
  CacheConditionsNoBody :: "bool option"
  CacheKeyIncludeMethod :: "bool option"
  CacheKeyIncludeRequestURI :: "bool option"
  CacheKeyIncludeHeaders :: "bool option"
  CacheKeyHeaders :: "string list"
  CacheKeyMatchAllHeaders :: "bool option"
  CacheKeyIncludeHost :: "bool option"
  CacheKeyIncludeRemoteAddress :: "bool option"
  CacheConditions :: CacheKeyConditions
  CacheKey :: CacheKeyOptions

definition boolPtr :: "bool \<Rightarrow> bool option" where
  "boolPtr b = Some b"

text \<open>
  \<open>CreateConfig\<close> builds \<open>init\<close> and returns \<open>finalize\<close>, which copies \<open>CacheEnabled\<close> and
  fills the two structs from \<open>init\<close>; its other fields keep Go's zero values.
\<close>

definition CreateConfig :: Config where
  "CreateConfig =
     \<lparr>TimeoutMillis = 2000,
      ModSecurityUrl = [],
      MaxBodySize = 10 * 1024 * 1024,
      CacheEnabled = boolPtr True,
      CacheConditionsMethods = [],
      CacheConditionsNoBody = None,
      CacheKeyIncludeMethod = None,
      CacheKeyIncludeRequestURI = None,
      CacheKeyIncludeHeaders = None,
      CacheKeyHeaders = [],
      CacheKeyMatchAllHeaders = None,
      CacheKeyIncludeHost = None,
      CacheKeyIncludeRemoteAddress = None,
      CacheConditions = \<lparr>Methods = [''GET''], NoBody = boolPtr True\<rparr>,
      CacheKey =
        \<lparr>IncludeMethod = boolPtr True,
         IncludeRequestURI = boolPtr True,
         IncludeHeaders = boolPtr False,
         Headers = [''Authorization'', ''User-Agent'', ''Cache-Control''],
         MatchAllHeaders = boolPtr False,
         IncludeHost = boolPtr True,
         IncludeRemoteAddress = boolPtr False\<rparr>\<rparr>"

text \<open>
  The plugin. \<open>next\<close> is the backend handler of the middleware chain, a function from the
  response writer and the request to the response writer it leaves. The logger is left
  out; the object \<open>cache\<close> points to is in the \<open>world\<close>.
\<close>

record Modsecurity =
  "next" :: "ResponseWriter \<Rightarrow> request \<Rightarrow> ResponseWriter"
  modSecurityUrl :: string
  maxBodySize :: "64 word"
  name :: string
  httpClient :: Client
  cacheEnabled :: bool
  cacheConditions :: CacheKeyConditions
  cacheKey :: CacheKeyOptions

text \<open>
  \<open>New\<close>. The transport of the HTTP client is represented by \<open>roundTrip\<close>, the outcome of
  sending a request with it. The durations are \<open>int64\<close> nanoseconds.
\<close>

definition New ::
  "(ResponseWriter \<Rightarrow> request \<Rightarrow> ResponseWriter) \<Rightarrow> (proxy_request \<Rightarrow> string + response)
   \<Rightarrow> Config \<Rightarrow> string \<Rightarrow> world \<Rightarrow> (string + Modsecurity) \<times> world" where
  "New nextHandler roundTrip config nm s =
     (if length (ModSecurityUrl config) = 0 then (Inl ''modSecurityUrl cannot be empty'', s)
      else
        let timeout = (if TimeoutMillis config = 0 then 2 * 1000000000
                       else TimeoutMillis config * 1000000)
        in (Inr \<lparr>next = nextHandler,
                 modSecurityUrl = ModSecurityUrl config,
                 maxBodySize = MaxBodySize config,
                 name = nm,
                 httpClient = \<lparr>Timeout = timeout, Do = roundTrip\<rparr>,
                 cacheEnabled = isTrue (CacheEnabled config),
                 cacheConditions = CacheConditions config,
                 cacheKey = CacheKey config\<rparr>,
            s\<lparr>cache := cache_New (5 * Minute) (10 * Minute)\<rparr>))"

definition PrepareForwardedRequest ::
  "url_Parse \<Rightarrow> Modsecurity \<Rightarrow> request \<Rightarrow> world \<Rightarrow> (string + nat) \<times> world" where
  "PrepareForwardedRequest parse a req s =
     (let url = modSecurityUrl a @ RequestURI req
      in case NewRequestWithContext parse (Method req) url (Body req) (BodyErr req) of
           Inl err \<Rightarrow> (Inl err, s)
         | Inr proxyReq0 \<Rightarrow>
             (let proxyReq = proxyReq0\<lparr>pHeader := Header req\<rparr>;
                  s1 = emit (EvaluationCall proxyReq) s
              in (case Do (httpClient a) proxyReq of
                    Inl err \<Rightarrow> (Inl err, s1)
                  | Inr r \<Rightarrow> (let (resp, s2) = alloc r s1 in (Inr resp, s2)))))"

text \<open>
  \<open>GetCachedResponse\<close> (modesecurity_cache.go). On a hit the deferred \<open>putResponse(resp)\<close>
  runs when the function returns, after the result \<open>resp\<close> has been fixed.
\<close>

definition GetCachedResponse ::
  "url_Parse \<Rightarrow> Modsecurity \<Rightarrow> request \<Rightarrow> CacheKeyOptions \<Rightarrow> world \<Rightarrow> (string + nat) \<times> world" where
  "GetCachedResponse parse a req options s =
     (let cacheKey = generateCacheKey parse req options;
          s0 = emit (CacheGet cacheKey) s
      in case cache_Get (cache s0) (now s0) cacheKey of
           Some cachedCode \<Rightarrow>
             (let statusCode = go_rem cachedCode 1000;
                  body = StatusText statusCode;
                  (resp, s1) = newPooledCacheResponse statusCode body s0
              in (Inr resp, putResponse resp s1))
         | None \<Rightarrow>
             (case PrepareForwardedRequest parse a req s0 of
                (Inl err, s1) \<Rightarrow> (Inl err, s1)
              | (Inr resp, s1) \<Rightarrow>
                  (let cachedCode = go_rem (StatusCode (heap s1 resp)) 1000;
                       s2 = emit (CacheSet cacheKey cachedCode) s1
                   in (Inr resp,
                       s2\<lparr>cache := cache_SetDefault (cache s2) (now s2) cacheKey cachedCode\<rparr>))))"

section \<open>modsecurity_handlers.go\<close>

text \<open>
  \<open>HandleRequestBodyMaxSize\<close> reads the body through a \<open>MaxBytesReader\<close> and closes it. It
  returns the response writer, the request with what is left of its body, and the error.
\<close>

definition HandleRequestBodyMaxSize ::
  "Modsecurity \<Rightarrow> ResponseWriter \<Rightarrow> request \<Rightarrow> ResponseWriter \<times> request \<times> string option" where
  "HandleRequestBodyMaxSize a rw req =
     (let (n, err) = copyMaxBytes (maxBodySize a + 1) (Body req) (BodyErr req);
          req' = req\<lparr>Body := drop (maxBytesRead (maxBodySize a + 1) (Body req)) (Body req),
                     BodyClosed := True\<rparr>
      in case err of
           Some e \<Rightarrow>
             (if e = ''http: request body too large''
              then (http_Error rw [] StatusRequestEntityTooLarge, req', Some e)
              else (http_Error rw [] StatusBadGateway, req', Some e))
         | None \<Rightarrow>
             (if sint n > sint (maxBodySize a)
              then (http_Error rw [] StatusRequestEntityTooLarge, req',
                    Some ''http: request body too large'')
              else (rw, req', None)))"

definition HandleCacheAndForwardRequest ::
  "url_Parse \<Rightarrow> Modsecurity \<Rightarrow> request \<Rightarrow> world \<Rightarrow> (string + nat) \<times> world" where
  "HandleCacheAndForwardRequest parse a req s =
     (if \<not> cacheEnabled a then PrepareForwardedRequest parse a req s
      else if Check (cacheConditions a) req then
        (case GetCachedResponse parse a req (cacheKey a) s of
           (Inl err, s1) \<Rightarrow> (Inl err, s1)
         | (Inr resp, s1) \<Rightarrow> (Inr resp, s1))
      else
        (case PrepareForwardedRequest parse a req s of
           (Inl err, s1) \<Rightarrow> (Inl err, s1)
         | (Inr resp, s1) \<Rightarrow> (Inr resp, s1)))"

section \<open>The request orchestrator (modsecurity.go)\<close>

definition forwardResponse :: "response \<Rightarrow> ResponseWriter \<Rightarrow> ResponseWriter option" where
  "forwardResponse resp rw =
     (let h = foldl (\<lambda>h (k, vv). foldl (\<lambda>h v. Header_Add h k v) h vv) (rwHeader rw) (RespHeader resp)
      in case WriteHeader (StatusCode resp) (rw\<lparr>rwHeader := h\<rparr>) of
           None \<Rightarrow> None
         | Some rw' \<Rightarrow> Some (io_Copy rw' (RespBody resp)))"

text \<open>
  \<open>ServeHTTP\<close> starts two goroutines and waits for both. One runs
  \<open>HandleRequestBodyMaxSize\<close>, which reads and closes \<open>req.Body\<close> and may write to the
  response writer; the other runs \<open>HandleCacheAndForwardRequest\<close>, which works on the cache
  and the pool and, when it forwards, hands the same \<open>req.Body\<close> to the HTTP client, which
  reads and closes it too. The two share nothing else, but they race for the one body
  stream: every byte of the body goes to one of the two readers, and a reader that comes
  after the other has closed the stream gets the error \<open>closedBody\<close>.

  How the run went is an input of the model, a \<open>schedule\<close>: the bytes the reads of the
  body guard received and how they ended, and the same for the reads of the HTTP client.
  \<open>dealt body g c\<close> says that \<open>g\<close> and \<open>c\<close> are two such shares of \<open>body\<close>: the bytes of a
  prefix of the body, handed out in order. Each task is run on the request with its share
  as the body.
\<close>

definition closedBody :: string where
  "closedBody = ''http: invalid Read on closed Body''"

record schedule =
  guardShare :: string
  guardReadErr :: "string option"
  clientShare :: string
  clientReadErr :: "string option"

fun dealt :: "string \<Rightarrow> string \<Rightarrow> string \<Rightarrow> bool" where
  "dealt body [] [] = True"
| "dealt [] g c = False"
| "dealt (b # body) g c =
     ((case g of [] \<Rightarrow> False | x # g' \<Rightarrow> x = b \<and> dealt body g' c)
      \<or> (case c of [] \<Rightarrow> False | y # c' \<Rightarrow> y = b \<and> dealt body g c'))"

definition guardView :: "schedule \<Rightarrow> request \<Rightarrow> request" where
  "guardView sch req = req\<lparr>Body := guardShare sch, BodyErr := guardReadErr sch\<rparr>"

definition clientView :: "schedule \<Rightarrow> request \<Rightarrow> request" where
  "clientView sch req = req\<lparr>Body := clientShare sch, BodyErr := clientReadErr sch\<rparr>"

text \<open>
  The result of \<open>ServeHTTP\<close> is the response writer (\<open>None\<close> when \<open>WriteHeader\<close> panicked)
  and the world. The backend handler gets the request as the body guard has left it, with
  the body read and closed.
\<close>

definition ServeHTTP ::
  "url_Parse \<Rightarrow> Modsecurity \<Rightarrow> ResponseWriter \<Rightarrow> request \<Rightarrow> schedule \<Rightarrow> world
   \<Rightarrow> ResponseWriter option \<times> world" where
  "ServeHTTP parse a rw req sch s =
     (if isWebsocket req then (Some (next a rw req), emit (BackendCall req) s)
      else
        let (rw1, req1, reqErr) = HandleRequestBodyMaxSize a rw (guardView sch req);
            (result, s1) = HandleCacheAndForwardRequest parse a (clientView sch req) s
        in case (reqErr, result) of
             (None, Inr resp) \<Rightarrow>
               (if StatusCode (heap s1 resp) \<ge> 400
                then (forwardResponse (heap s1 resp) rw1, s1)
                else (Some (next a rw1 req1), emit (BackendCall req1) s1))
           | _ \<Rightarrow> (Some rw1, s1))"

section \<open>Concrete inputs\<close>

text \<open>
  A stand-in for \<open>url.Parse\<close> on request targets in origin form (a path that starts with
  one slash, then an optional query and fragment) and on such a target behind
  \<open>http://host:port\<close>, where path and fragment are written without bytes that
  \<open>URL.String()\<close> would escape. It follows the steps of \<open>url.Parse\<close> for such a text:
  the fragment is cut off at the first \<open>#\<close>, a control byte is refused, the query is
  cut off at the first \<open>?\<close> (a lone trailing \<open>?\<close> sets \<open>ForceQuery\<close>), and a
  malformed escape in the path or in the fragment is refused. It serves to run the model
  on concrete requests; the general statements below hold for every parser.
\<close>

definition isCTL :: "char \<Rightarrow> bool" where
  "isCTL c = ((of_char c :: nat) < 32 \<or> (of_char c :: nat) = 127)"

definition parseOriginForm :: url_Parse where
  "parseOriginForm rawURL =
     (let u = cutBefore CHR ''#'' rawURL;
          frag = cutAfter CHR ''#'' rawURL
      in if list_ex isCTL u then Inl ''net/url: invalid control character in URL''
         else
           let force = (u \<noteq> [] \<and> last u = CHR ''?'' \<and> count_list u CHR ''?'' = 1);
               rest = (if force then butlast u else cutBefore CHR ''?'' u);
               rawq = (if force then [] else cutAfter CHR ''?'' u)
           in if QueryUnescape rest = None then Inl ''invalid URL escape''
              else if QueryUnescape frag = None then Inl ''invalid URL escape''
              else Inr \<lparr>BeforeQuery = rest, ForceQuery = force, RawQuery = rawq,
                        AfterQuery = (if frag = [] then [] else CHR ''#'' # frag)\<rparr>)"

text \<open>
  A response writer nothing has been written to, a world with an empty cache and pool, a
  backend that answers \<open>OK\<close>, and requests of one client.
\<close>

definition freshWriter :: ResponseWriter where
  "freshWriter = \<lparr>rwHeader = [], rwStatus = None, rwBody = []\<rparr>"

definition emptyWorld :: world where
  "emptyWorld =
     \<lparr>cache = cache_New (5 * Minute) (10 * Minute),
      heap = (\<lambda>p. \<lparr>StatusCode = 0, RespHeader = [], RespBody = []\<rparr>),
      allocated = 0, pool = [], now = 0, trace = []\<rparr>"

definition okBackend :: "ResponseWriter \<Rightarrow> request \<Rightarrow> ResponseWriter" where
  "okBackend rw req = Write ''OK'' rw"

definition exampleRequest :: "string \<Rightarrow> string \<Rightarrow> string \<Rightarrow> request" where
  "exampleRequest method uri body =
     \<lparr>Method = method, RequestURI = uri, Header = [(''User-Agent'', [''curl''])],
      Host = ''example.com'', RemoteAddr = ''10.0.0.1:5000'',
      ContentLength = word_of_nat (length body), Body = body, BodyErr = None,
      BodyClosed = False\<rparr>"

text \<open>The plugin \<open>New\<close> builds from \<open>CreateConfig\<close> with an address, up to the body limit.\<close>

definition examplePlugin ::
  "64 word \<Rightarrow> (proxy_request \<Rightarrow> string + response) \<Rightarrow> Modsecurity" where
  "examplePlugin maxSize roundTrip =
     \<lparr>next = okBackend, modSecurityUrl = ''http://waf:80'', maxBodySize = maxSize,
      name = ''waf'', httpClient = \<lparr>Timeout = 2000000000, Do = roundTrip\<rparr>,
      cacheEnabled = True, cacheConditions = CacheConditions CreateConfig,
      cacheKey = CacheKey CreateConfig\<rparr>"

definition wafAnswers :: "int \<Rightarrow> string \<Rightarrow> proxy_request \<Rightarrow> string + response" where
  "wafAnswers code body p =
     Inr \<lparr>StatusCode = code, RespHeader = [(''Server'', [''Apache''])], RespBody = body\<rparr>"

definition wafDown :: "proxy_request \<Rightarrow> string + response" where
  "wafDown p = Inl ''dial tcp: connection refused''"

definition websocketRequest :: request where
  "websocketRequest =
     (exampleRequest ''GET'' ''/chat'' ''hello'')
       \<lparr>Header := [(''Connection'', [''Upgrade'']), (''Upgrade'', [''websocket''])]\<rparr>"

text \<open>
  Four runs of the two goroutines on a request with the body \<open>body\<close>: no body at all;
  the body guard reads the whole body and closes it before the HTTP client reads; the HTTP
  client reads the whole body and the guard finds the end of the stream; the same, but the
  client has closed the stream before the guard reads.
\<close>

definition noBody :: schedule where
  "noBody = \<lparr>guardShare = [], guardReadErr = None, clientShare = [], clientReadErr = None\<rparr>"

definition guardFirst :: "string \<Rightarrow> schedule" where
  "guardFirst body =
     \<lparr>guardShare = body, guardReadErr = None, clientShare = [],
      clientReadErr = Some closedBody\<rparr>"

definition clientFirst :: "string \<Rightarrow> schedule" where
  "clientFirst body =
     \<lparr>guardShare = [], guardReadErr = None, clientShare = body, clientReadErr = None\<rparr>"

definition clientClosedFirst :: "string \<Rightarrow> schedule" where
  "clientClosedFirst body =
     \<lparr>guardShare = [], guardReadErr = Some closedBody, clientShare = body,
      clientReadErr = None\<rparr>"

section \<open>Events\<close>


definition isEvaluationCall :: "event \<Rightarrow> bool" where
  "isEvaluationCall e = (case e of EvaluationCall p \<Rightarrow> True | _ \<Rightarrow> False)"

definition isBackendCall :: "event \<Rightarrow> bool" where
  "isBackendCall e = (case e of BackendCall r \<Rightarrow> True | _ \<Rightarrow> False)"

text \<open>A world whose cache holds the verdict 403 for the key of \<open>POST /login\<close>.\<close>

definition warmWorld :: world where
  "warmWorld = emptyWorld\<lparr>cache := cache_SetDefault (cache emptyWorld) 0
      (generateCacheKey parseOriginForm (exampleRequest ''POST'' ''/login'' []) (CacheKey CreateConfig)) 403\<rparr>"

text \<open>An evaluation service that rejects one request URI and lets everything else pass.\<close>

definition exampleWaf :: "proxy_request \<Rightarrow> string + response" where
  "exampleWaf p =
     (if pURL p = ''http://waf:80/website?test=../etc''
      then wafAnswers 403 ''Blocked'' p else wafAnswers 200 ''Response from waf'' p)"

text \<open>One request, with the two entries of its header map listed in either order.\<close>

definition agentFirst :: request where
  "agentFirst =
     (exampleRequest ''GET'' ''/a'' [])
       \<lparr>Header := [(''User-Agent'', [''curl'']), (''Authorization'', [''Basic eA==''])]\<rparr>"

definition authorizationFirst :: request where
  "authorizationFirst =
     (exampleRequest ''GET'' ''/a'' [])
       \<lparr>Header := [(''Authorization'', [''Basic eA=='']), (''User-Agent'', [''curl''])]\<rparr>"

text \<open>A plugin whose cache key includes the headers on the allow-list of \<open>CreateConfig\<close>
  (\<open>cacheKey.includeHeaders: true\<close>), in front of an evaluation service that rejects.\<close>

definition headerKeyPlugin :: Modsecurity where
  "headerKeyPlugin =
     (examplePlugin 1024 (wafAnswers 403 ''Blocked''))
       \<lparr>cacheKey := (CacheKey CreateConfig)\<lparr>IncludeHeaders := boolPtr True\<rparr>\<rparr>"

section \<open>Query parameters\<close>





section \<open>Protocol upgrades\<close>

lemma contains_iff: "contains xs x \<longleftrightarrow> x \<in> set xs"
  by (induction xs) auto

text \<open>
  C9. A request that carries an \<open>Upgrade\<close> header with the value \<open>websocket\<close> goes straight
  to the backend handler, with the response writer and the request as they came in (body
  and headers untouched), whatever the schedule. The world is unchanged but for the
  record of that one call: no call to the evaluation service, no access to the cache, and
  the body guard has neither read the body nor written to the response writer.
\<close>

theorem websocket_bypass:
  assumes "''websocket'' \<in> set (mapIndex (Header req) ''Upgrade'')"
  shows "ServeHTTP parse a rw req sch s
         = (Some (next a rw req), s\<lparr>trace := trace s @ [BackendCall req]\<rparr>)"
  using assms by (simp add: ServeHTTP_def isWebsocket_def contains_iff emit_def)

theorem websocket_bypass_witness:
  "''websocket'' \<in> set (mapIndex (Header websocketRequest) ''Upgrade'')
   \<and> ServeHTTP parseOriginForm (examplePlugin 4 wafDown) freshWriter websocketRequest
         (guardFirst ''hello'') emptyWorld
       = (Some (okBackend freshWriter websocketRequest),
          emptyWorld\<lparr>trace := [BackendCall websocketRequest]\<rparr>)"
proof -
  have h: "''websocket'' \<in> set (mapIndex (Header websocketRequest) ''Upgrade'')"
    by (simp add: websocketRequest_def exampleRequest_def mapIndex_def)
  show ?thesis
    using h websocket_bypass [OF h, of parseOriginForm "examplePlugin 4 wafDown" freshWriter
        "guardFirst ''hello''" emptyWorld]
    by (simp add: examplePlugin_def emptyWorld_def)
qed

section \<open>Forwarding to the evaluation service\<close>

lemma emit_simps [simp]:
  "trace (emit e s) = trace s @ [e]" "cache (emit e s) = cache s" "now (emit e s) = now s"
  "heap (emit e s) = heap s" "pool (emit e s) = pool s" "allocated (emit e s) = allocated s"
  by (simp_all add: emit_def)





text \<open>When \<open>http.NewRequestWithContext\<close> accepts the method and the URL, the request is
  sent: one call of \<open>Do\<close>, whose outcome is the result.\<close>

lemma PrepareForwardedRequest_sends:
  assumes "validMethod (Method req)"
    and "parse (modSecurityUrl a @ RequestURI req) = Inr u"
  shows "PrepareForwardedRequest parse a req s
    = (case Do (httpClient a)
              \<lparr>pMethod = Method req, pURL = modSecurityUrl a @ RequestURI req,
               pHeader = Header req, pBody = Body req, pBodyErr = BodyErr req\<rparr> of
         Inl err \<Rightarrow>
           (Inl err,
            emit (EvaluationCall
                   \<lparr>pMethod = Method req, pURL = modSecurityUrl a @ RequestURI req,
                    pHeader = Header req, pBody = Body req, pBodyErr = BodyErr req\<rparr>) s)
       | Inr r \<Rightarrow>
           (Inr (allocated s),
            (emit (EvaluationCall
                    \<lparr>pMethod = Method req, pURL = modSecurityUrl a @ RequestURI req,
                     pHeader = Header req, pBody = Body req, pBodyErr = BodyErr req\<rparr>) s)
              \<lparr>heap := (heap s)(allocated s := r), allocated := Suc (allocated s)\<rparr>))"
proof -
  have "Method req \<noteq> []" using assms(1) by (auto simp add: validMethod_def)
  then show ?thesis
    using assms
    by (simp add: PrepareForwardedRequest_def NewRequestWithContext_def Let_def alloc_def
        split: sum.splits)
qed

lemma PrepareForwardedRequest_refused:
  assumes "parse (modSecurityUrl a @ RequestURI req) = Inl err"
  shows "\<exists>e. PrepareForwardedRequest parse a req s = (Inl e, s)"
  using assms
  by (simp add: PrepareForwardedRequest_def NewRequestWithContext_def Let_def)



lemma validMethod_POST: "validMethod ''POST''"
  by (simp add: validMethod_def validHeaderFieldByte_def)

lemma validMethod_GET: "validMethod ''GET''"
  by (simp add: validMethod_def validHeaderFieldByte_def)



section \<open>The body guard\<close>

lemma sint_succ:
  fixes m :: "64 word"
  assumes "sint m < 2 ^ 63 - 1"
  shows "sint (m + 1) = sint m + 1"
proof -
  have lo: "- (2 ^ 63) \<le> sint m" using sint_ge [of m] by simp
  have "sint (m + 1) = signed_take_bit 63 (sint m + 1)"
    by (simp add: sint_word_ariths)
  also have "\<dots> = sint m + 1"
    using assms lo by (intro signed_take_bit_int_eq_self) simp_all
  finally show ?thesis .
qed

lemma guard_accepts_limit:
  assumes lo: "0 \<le> sint (maxBodySize a)" and hi: "sint (maxBodySize a) < 2 ^ 63 - 1"
    and clean: "BodyErr req = None"
    and len: "length (Body req) = nat (sint (maxBodySize a))"
  shows "HandleRequestBodyMaxSize a rw req = (rw, req\<lparr>Body := [], BodyClosed := True\<rparr>, None)"
proof -
  have n: "(word_of_nat (length (Body req)) :: 64 word) = maxBodySize a"
    using lo len by simp
  have copy: "copyMaxBytes (maxBodySize a + 1) (Body req) (BodyErr req) = (maxBodySize a, None)"
    using lo hi clean len n by (simp add: copyMaxBytes_def sint_succ [OF hi])
  have "maxBytesRead (maxBodySize a + 1) (Body req) = length (Body req)"
    using lo len by (simp add: maxBytesRead_def sint_succ [OF hi])
  then show ?thesis
    by (simp add: HandleRequestBodyMaxSize_def copy)
qed

lemma guard_rejects_one_more:
  assumes lo: "0 \<le> sint (maxBodySize a)" and hi: "sint (maxBodySize a) < 2 ^ 63 - 1"
    and clean: "BodyErr req = None"
    and len: "length (Body req) = nat (sint (maxBodySize a)) + 1"
  shows "HandleRequestBodyMaxSize a rw req
         = (http_Error rw [] StatusRequestEntityTooLarge, req\<lparr>Body := [], BodyClosed := True\<rparr>,
            Some ''http: request body too large'')"
proof -
  have n: "(word_of_nat (length (Body req)) :: 64 word) = maxBodySize a + 1"
    using lo len by simp
  have lim: "nat (sint (maxBodySize a) + 1) = length (Body req)"
    using lo len by simp
  have copy: "copyMaxBytes (maxBodySize a + 1) (Body req) (BodyErr req) = (maxBodySize a + 1, None)"
    using lo clean by (simp add: copyMaxBytes_def sint_succ [OF hi] lim n)
  have "maxBytesRead (maxBodySize a + 1) (Body req) = length (Body req)"
    using lo len by (simp add: maxBytesRead_def sint_succ [OF hi])
  then show ?thesis
    by (simp add: HandleRequestBodyMaxSize_def copy sint_succ [OF hi])
qed

lemma newPooledCacheResponse_frame:
  "trace (snd (newPooledCacheResponse code body s)) = trace s
   \<and> cache (snd (newPooledCacheResponse code body s)) = cache s
   \<and> now (snd (newPooledCacheResponse code body s)) = now s"
  by (simp add: newPooledCacheResponse_def pool_Get_def alloc_def Let_def
      split: list.splits prod.splits)

lemma putResponse_frame:
  "trace (putResponse p s) = trace s \<and> cache (putResponse p s) = cache s
   \<and> now (putResponse p s) = now s"
  by (simp add: putResponse_def pool_Put_def)

lemma GetCachedResponse_miss:
  assumes "cache_Get (cache s) (now s) (generateCacheKey parse req options) = None"
  shows "GetCachedResponse parse a req options s
    = (case PrepareForwardedRequest parse a req
             (emit (CacheGet (generateCacheKey parse req options)) s) of
         (Inl err, s1) \<Rightarrow> (Inl err, s1)
       | (Inr resp, s1) \<Rightarrow>
           (Inr resp,
            (emit (CacheSet (generateCacheKey parse req options)
                     (go_rem (StatusCode (heap s1 resp)) 1000)) s1)
              \<lparr>cache := cache_SetDefault (cache s1) (now s1)
                  (generateCacheKey parse req options)
                  (go_rem (StatusCode (heap s1 resp)) 1000)\<rparr>))"
  using assms by (simp add: GetCachedResponse_def Let_def split: prod.splits sum.splits)

lemma GetCachedResponse_hit:
  assumes "cache_Get (cache s) (now s) (generateCacheKey parse req options) = Some code"
  shows "GetCachedResponse parse a req options s
    = (case newPooledCacheResponse (go_rem code 1000) (StatusText (go_rem code 1000))
             (emit (CacheGet (generateCacheKey parse req options)) s) of
         (resp, s1) \<Rightarrow> (Inr resp, putResponse resp s1))"
  using assms by (simp add: GetCachedResponse_def Let_def split: prod.splits)



lemma http_Error_fresh:
  assumes "rwStatus rw = None"
  shows "rwStatus (http_Error rw msg code) = Some code
         \<and> rwBody (http_Error rw msg code) = rwBody rw @ msg @ [CHR 0x0A]"
  using assms by (simp add: http_Error_def Write_def Let_def)

lemma parseOriginForm_upload:
  "parseOriginForm ''http://waf:80/upload''
   = Inr \<lparr>BeforeQuery = ''http://waf:80/upload'', ForceQuery = False, RawQuery = [],
          AfterQuery = []\<rparr>"
  by code_simp

lemma upload_forwarded:
  "HandleCacheAndForwardRequest parseOriginForm (examplePlugin 4 (wafAnswers 200 ''fine''))
     (clientView sch (exampleRequest ''POST'' ''/upload'' body)) emptyWorld
   = (Inr 0,
      emptyWorld
        \<lparr>heap := (heap emptyWorld)
           (0 := \<lparr>StatusCode = 200, RespHeader = [(''Server'', [''Apache''])],
                  RespBody = ''fine''\<rparr>),
         allocated := 1,
         trace := [EvaluationCall \<lparr>pMethod = ''POST'', pURL = ''http://waf:80/upload'',
                     pHeader = [(''User-Agent'', [''curl''])], pBody = clientShare sch,
                     pBodyErr = clientReadErr sch\<rparr>]\<rparr>)"
  by (simp add: HandleCacheAndForwardRequest_def Check_def CreateConfig_def boolPtr_def
      PrepareForwardedRequest_def NewRequestWithContext_def validMethod_POST
      examplePlugin_def exampleRequest_def clientView_def parseOriginForm_upload
      wafAnswers_def emit_def alloc_def emptyWorld_def)

lemma upload_served:
  "ServeHTTP parseOriginForm (examplePlugin 4 (wafAnswers 200 ''fine'')) freshWriter
     (exampleRequest ''POST'' ''/upload'' body) sch emptyWorld
   = (case HandleRequestBodyMaxSize (examplePlugin 4 (wafAnswers 200 ''fine'')) freshWriter
             (guardView sch (exampleRequest ''POST'' ''/upload'' body)) of
        (rw1, req1, None) \<Rightarrow>
          (Some (okBackend rw1 req1),
           emit (BackendCall req1)
             (snd (HandleCacheAndForwardRequest parseOriginForm
                (examplePlugin 4 (wafAnswers 200 ''fine''))
                (clientView sch (exampleRequest ''POST'' ''/upload'' body)) emptyWorld)))
      | (rw1, req1, Some e) \<Rightarrow>
          (Some rw1,
           snd (HandleCacheAndForwardRequest parseOriginForm
                (examplePlugin 4 (wafAnswers 200 ''fine''))
                (clientView sch (exampleRequest ''POST'' ''/upload'' body)) emptyWorld)))"
proof -
  have ws: "\<not> isWebsocket (exampleRequest ''POST'' ''/upload'' body)"
    by (simp add: isWebsocket_def exampleRequest_def mapIndex_def)
  have nxt: "next (examplePlugin 4 (wafAnswers 200 ''fine'')) = okBackend"
    by (simp add: examplePlugin_def)
  show ?thesis
    by (simp add: ServeHTTP_def ws upload_forwarded nxt split: prod.splits option.splits)
qed

text \<open>
  C4. A plugin with a body limit of 4 bytes and the default cache settings receives a
  \<open>POST\<close> whose body has 5 bytes. Whatever the schedule, the evaluation service is called
  for it. When the body guard reads the whole body first, the client is answered 413 and
  the service has been called all the same. When the HTTP client has taken the whole body
  and the guard then finds the end of the stream, the guard passes, and with a service
  that answers 200 the backend handler is called: the body over the limit is let through.
  A body of exactly 4 bytes, for its part, is answered 502 when the HTTP client has closed
  the stream before the guard reads.
\<close>

theorem oversized_body_reaches_evaluation_service:
  "filter isEvaluationCall
     (trace (snd (ServeHTTP parseOriginForm (examplePlugin 4 (wafAnswers 200 ''fine''))
        freshWriter (exampleRequest ''POST'' ''/upload'' ''12345'') sch emptyWorld)))
     = [EvaluationCall \<lparr>pMethod = ''POST'', pURL = ''http://waf:80/upload'',
          pHeader = [(''User-Agent'', [''curl''])], pBody = clientShare sch,
          pBodyErr = clientReadErr sch\<rparr>]
   \<and> dealt ''12345'' (guardShare (guardFirst ''12345'')) (clientShare (guardFirst ''12345''))
   \<and> fst (ServeHTTP parseOriginForm (examplePlugin 4 (wafAnswers 200 ''fine'')) freshWriter
          (exampleRequest ''POST'' ''/upload'' ''12345'') (guardFirst ''12345'') emptyWorld)
     = Some \<lparr>rwHeader = [(''Content-Type'', [''text/plain; charset=utf-8'']),
                         (''X-Content-Type-Options'', [''nosniff''])],
             rwStatus = Some 413, rwBody = [CHR 0x0A]\<rparr>
   \<and> dealt ''12345'' (guardShare (clientFirst ''12345'')) (clientShare (clientFirst ''12345''))
   \<and> fst (ServeHTTP parseOriginForm (examplePlugin 4 (wafAnswers 200 ''fine'')) freshWriter
          (exampleRequest ''POST'' ''/upload'' ''12345'') (clientFirst ''12345'') emptyWorld)
     = Some \<lparr>rwHeader = [], rwStatus = Some 200, rwBody = ''OK''\<rparr>
   \<and> filter isBackendCall
       (trace (snd (ServeHTTP parseOriginForm (examplePlugin 4 (wafAnswers 200 ''fine''))
          freshWriter (exampleRequest ''POST'' ''/upload'' ''12345'') (clientFirst ''12345'')
          emptyWorld)))
     = [BackendCall ((exampleRequest ''POST'' ''/upload'' ''12345'')
          \<lparr>Body := [], BodyClosed := True\<rparr>)]
   \<and> dealt ''1234'' (guardShare (clientClosedFirst ''1234''))
         (clientShare (clientClosedFirst ''1234''))
   \<and> fst (ServeHTTP parseOriginForm (examplePlugin 4 (wafAnswers 200 ''fine'')) freshWriter
          (exampleRequest ''POST'' ''/upload'' ''1234'') (clientClosedFirst ''1234'') emptyWorld)
     = Some \<lparr>rwHeader = [(''Content-Type'', [''text/plain; charset=utf-8'']),
                         (''X-Content-Type-Options'', [''nosniff''])],
             rwStatus = Some 502, rwBody = [CHR 0x0A]\<rparr>"
proof -
  let ?a = "examplePlugin 4 (wafAnswers 200 ''fine'')"
  let ?r = "exampleRequest ''POST'' ''/upload'' ''12345''"
  have canon: "CanonicalMIMEHeaderKey ''Content-Type'' = ''Content-Type''"
    "CanonicalMIMEHeaderKey ''X-Content-Type-Options'' = ''X-Content-Type-Options''"
    by code_simp+
  have err: "http_Error freshWriter [] code
     = \<lparr>rwHeader = [(''Content-Type'', [''text/plain; charset=utf-8'']),
                    (''X-Content-Type-Options'', [''nosniff''])],
        rwStatus = Some code, rwBody = [CHR 0x0A]\<rparr>" for code
    by (simp add: http_Error_def freshWriter_def Header_Set_def canon Write_def)
  have always: "filter isEvaluationCall
     (trace (snd (ServeHTTP parseOriginForm ?a freshWriter ?r sch emptyWorld)))
     = [EvaluationCall \<lparr>pMethod = ''POST'', pURL = ''http://waf:80/upload'',
          pHeader = [(''User-Agent'', [''curl''])], pBody = clientShare sch,
          pBodyErr = clientReadErr sch\<rparr>]"
  proof -
    obtain rw1 req1 e where
      g: "HandleRequestBodyMaxSize ?a freshWriter (guardView sch ?r) = (rw1, req1, e)"
      by (cases "HandleRequestBodyMaxSize ?a freshWriter (guardView sch ?r)")
    show ?thesis
      by (cases e) (simp_all add: upload_served g upload_forwarded isEvaluationCall_def)
  qed
  have guard_first: "HandleRequestBodyMaxSize ?a freshWriter (guardView (guardFirst ''12345'') ?r)
      = (http_Error freshWriter [] StatusRequestEntityTooLarge,
         ?r\<lparr>Body := [], BodyClosed := True\<rparr>, Some ''http: request body too large'')"
    by (simp add: HandleRequestBodyMaxSize_def copyMaxBytes_def maxBytesRead_def guardView_def
        guardFirst_def examplePlugin_def exampleRequest_def)
  have client_first: "HandleRequestBodyMaxSize ?a freshWriter (guardView (clientFirst ''12345'') ?r)
      = (freshWriter, ?r\<lparr>Body := [], BodyClosed := True\<rparr>, None)"
    by (simp add: HandleRequestBodyMaxSize_def copyMaxBytes_def maxBytesRead_def guardView_def
        clientFirst_def examplePlugin_def exampleRequest_def)
  have closed_first: "HandleRequestBodyMaxSize (examplePlugin 4 (wafAnswers 200 ''fine''))
        freshWriter
        (guardView (clientClosedFirst ''1234'') (exampleRequest ''POST'' ''/upload'' ''1234''))
      = (http_Error freshWriter [] StatusBadGateway,
         (exampleRequest ''POST'' ''/upload'' ''1234'')
           \<lparr>Body := [], BodyErr := Some closedBody, BodyClosed := True\<rparr>,
         Some closedBody)"
    by (simp add: HandleRequestBodyMaxSize_def copyMaxBytes_def maxBytesRead_def guardView_def
        clientClosedFirst_def examplePlugin_def exampleRequest_def closedBody_def)
  have too_large: "fst (ServeHTTP parseOriginForm ?a freshWriter ?r (guardFirst ''12345'')
        emptyWorld) = Some (http_Error freshWriter [] 413)"
    by (simp add: upload_served upload_forwarded guard_first StatusRequestEntityTooLarge_def)
  have let_through: "ServeHTTP parseOriginForm ?a freshWriter ?r (clientFirst ''12345'') emptyWorld
      = (Some (okBackend freshWriter (?r\<lparr>Body := [], BodyClosed := True\<rparr>)),
         emit (BackendCall (?r\<lparr>Body := [], BodyClosed := True\<rparr>))
           (snd (HandleCacheAndForwardRequest parseOriginForm ?a
              (clientView (clientFirst ''12345'') ?r) emptyWorld)))"
    by (simp add: upload_served client_first)
  have bad_gateway: "fst (ServeHTTP parseOriginForm ?a freshWriter
        (exampleRequest ''POST'' ''/upload'' ''1234'') (clientClosedFirst ''1234'') emptyWorld)
      = Some (http_Error freshWriter [] 502)"
    by (simp add: upload_served upload_forwarded closed_first StatusBadGateway_def)
  have shares: "dealt ''12345'' (guardShare (guardFirst ''12345'')) (clientShare (guardFirst ''12345''))"
    "dealt ''12345'' (guardShare (clientFirst ''12345'')) (clientShare (clientFirst ''12345''))"
    "dealt ''1234'' (guardShare (clientClosedFirst ''1234''))
         (clientShare (clientClosedFirst ''1234''))"
    by (simp_all add: guardFirst_def clientFirst_def clientClosedFirst_def)
  have backend: "filter isBackendCall
       (trace (snd (ServeHTTP parseOriginForm ?a freshWriter ?r (clientFirst ''12345'')
          emptyWorld)))
     = [BackendCall (?r\<lparr>Body := [], BodyClosed := True\<rparr>)]"
    by (simp add: let_through upload_forwarded isBackendCall_def)
  have ok: "okBackend freshWriter (?r\<lparr>Body := [], BodyClosed := True\<rparr>)
      = \<lparr>rwHeader = [], rwStatus = Some 200, rwBody = ''OK''\<rparr>"
    by (simp add: okBackend_def Write_def freshWriter_def)
  show ?thesis
    using always shares backend
    by (simp add: too_large let_through bad_gateway err ok)
qed

section \<open>Construction\<close>

text \<open>
  C8. \<open>New\<close> copies \<open>config.MaxBodySize\<close> as it is. With the value 0 the plugin it builds has
  a body limit of 0 bytes, not of 10 MiB: its body guard answers a one-byte body with 413.
  (\<open>TimeoutMillis\<close> 0, by contrast, is replaced by the default of two seconds.)
\<close>

theorem New_keeps_zero_MaxBodySize:
  "map_sum id maxBodySize
     (fst (New okBackend (wafAnswers 200 ''fine'')
            (CreateConfig\<lparr>ModSecurityUrl := ''http://waf:80'', MaxBodySize := 0, TimeoutMillis := 0\<rparr>)
            ''waf'' emptyWorld)) = Inr 0
   \<and> map_sum id (\<lambda>a. Timeout (httpClient a))
     (fst (New okBackend (wafAnswers 200 ''fine'')
            (CreateConfig\<lparr>ModSecurityUrl := ''http://waf:80'', MaxBodySize := 0, TimeoutMillis := 0\<rparr>)
            ''waf'' emptyWorld)) = Inr 2000000000
   \<and> map_sum id (\<lambda>a. HandleRequestBodyMaxSize a freshWriter (exampleRequest ''POST'' ''/login'' ''x''))
     (fst (New okBackend (wafAnswers 200 ''fine'')
            (CreateConfig\<lparr>ModSecurityUrl := ''http://waf:80'', MaxBodySize := 0, TimeoutMillis := 0\<rparr>)
            ''waf'' emptyWorld))
     = Inr (http_Error freshWriter [] StatusRequestEntityTooLarge,
            (exampleRequest ''POST'' ''/login'' ''x'')\<lparr>Body := [], BodyClosed := True\<rparr>,
            Some ''http: request body too large'')
   \<and> rwStatus (http_Error freshWriter [] StatusRequestEntityTooLarge) = Some 413"
  by (simp add: New_def CreateConfig_def HandleRequestBodyMaxSize_def copyMaxBytes_def
      maxBytesRead_def exampleRequest_def http_Error_def Write_def freshWriter_def StatusRequestEntityTooLarge_def)

section \<open>Failure of the evaluation service\<close>

lemma parseOriginForm_website:
  "parseOriginForm ''http://waf:80/website''
   = Inr \<lparr>BeforeQuery = ''http://waf:80/website'', ForceQuery = False, RawQuery = [],
          AfterQuery = []\<rparr>"
  by code_simp

lemma noBody_views:
  "guardView noBody (exampleRequest method uri []) = exampleRequest method uri []"
  "clientView noBody (exampleRequest method uri []) = exampleRequest method uri []"
  by (simp_all add: guardView_def clientView_def noBody_def exampleRequest_def)

text \<open>
  C3. When the call to the evaluation service fails, \<open>ServeHTTP\<close> returns without writing
  anything: the backend handler is not called and nothing is stored in the cache, but the
  response writer is left as it came in, so the client is answered with status 200 and an
  empty body, not with 502. Here the evaluation service refuses the connection, for a
  cache-eligible \<open>GET\<close> without a body (so that neither goroutine receives a byte) on an
  empty cache.
\<close>

theorem evaluation_failure_writes_nothing:
  "fst (ServeHTTP parseOriginForm (examplePlugin 1024 wafDown) freshWriter
          (exampleRequest ''GET'' ''/website'' []) noBody emptyWorld) = Some freshWriter
   \<and> clientStatus freshWriter = 200
   \<and> rwBody freshWriter = []
   \<and> trace (snd (ServeHTTP parseOriginForm (examplePlugin 1024 wafDown) freshWriter
          (exampleRequest ''GET'' ''/website'' []) noBody emptyWorld))
      = [CacheGet (generateCacheKey parseOriginForm (exampleRequest ''GET'' ''/website'' [])
                     (CacheKey CreateConfig)),
         EvaluationCall \<lparr>pMethod = ''GET'', pURL = ''http://waf:80/website'',
           pHeader = [(''User-Agent'', [''curl''])], pBody = [], pBodyErr = None\<rparr>]
   \<and> cache (snd (ServeHTTP parseOriginForm (examplePlugin 1024 wafDown) freshWriter
          (exampleRequest ''GET'' ''/website'' []) noBody emptyWorld)) = cache emptyWorld"
proof -
  let ?a = "examplePlugin 1024 wafDown"
  let ?r = "exampleRequest ''GET'' ''/website'' []"
  let ?k = "generateCacheKey parseOriginForm ?r (CacheKey CreateConfig)"
  have ws: "\<not> isWebsocket ?r"
    by (simp add: isWebsocket_def exampleRequest_def mapIndex_def)
  have guard: "HandleRequestBodyMaxSize ?a freshWriter ?r
      = (freshWriter, ?r\<lparr>Body := [], BodyClosed := True\<rparr>, None)"
    by (simp add: HandleRequestBodyMaxSize_def copyMaxBytes_def maxBytesRead_def
        examplePlugin_def exampleRequest_def)
  have miss: "cache_Get (cache emptyWorld) (now emptyWorld) ?k = None"
    by (simp add: cache_Get_def emptyWorld_def cache_New_def)
  have fwd: "PrepareForwardedRequest parseOriginForm ?a ?r s
      = (Inl ''dial tcp: connection refused'',
         emit (EvaluationCall \<lparr>pMethod = ''GET'', pURL = ''http://waf:80/website'',
           pHeader = [(''User-Agent'', [''curl''])], pBody = [], pBodyErr = None\<rparr>) s)" for s
    by (simp add: PrepareForwardedRequest_def NewRequestWithContext_def validMethod_def
        validHeaderFieldByte_def examplePlugin_def exampleRequest_def parseOriginForm_website
        wafDown_def)
  have eligible: "Check (cacheConditions ?a) ?r"
    by (simp add: Check_def examplePlugin_def CreateConfig_def boolPtr_def exampleRequest_def)
  have key: "cacheKey ?a = CacheKey CreateConfig" "cacheEnabled ?a"
    by (simp_all add: examplePlugin_def)
  have verdict: "HandleCacheAndForwardRequest parseOriginForm ?a ?r emptyWorld
      = (Inl ''dial tcp: connection refused'',
         emit (EvaluationCall \<lparr>pMethod = ''GET'', pURL = ''http://waf:80/website'',
           pHeader = [(''User-Agent'', [''curl''])], pBody = [], pBodyErr = None\<rparr>) (emit (CacheGet ?k) emptyWorld))"
    by (simp add: HandleCacheAndForwardRequest_def eligible key GetCachedResponse_miss [OF miss] fwd)
  show ?thesis
    by (simp add: ServeHTTP_def ws noBody_views guard verdict clientStatus_def)
       (simp add: freshWriter_def emptyWorld_def)
qed

section \<open>Synthesized responses and the pool\<close>

lemma canonical_Status_Text: "CanonicalMIMEHeaderKey ''Status-Text'' = ''Status-Text''"
  by code_simp

lemma mapIndex_update:
  "mapIndex (AList.update k vs h) k' = (if k' = k then vs else mapIndex h k')"
  by (simp add: mapIndex_def update_conv)

lemma Header_Set_Status_Text:
  "mapIndex (Header_Set h ''Status-Text'' v) ''Status-Text'' = [v]"
  by (simp add: Header_Set_def canonical_Status_Text mapIndex_update)

lemma newPooledCacheResponse_result:
  assumes "newPooledCacheResponse code body s = (p, s1)"
  shows "StatusCode (heap s1 p) = code" and "RespBody (heap s1 p) = body"
    and "mapIndex (RespHeader (heap s1 p)) ''Status-Text''
         = [if length body > 0 then body else StatusText code]"
  using assms
  by (auto simp add: newPooledCacheResponse_def pool_Get_def alloc_def Let_def
      Header_Set_Status_Text split: list.splits prod.splits)

lemma putResponse_result:
  "heap (putResponse p s) p = (heap s p)\<lparr>RespHeader := []\<rparr>"
  "pool (putResponse p s) = p # pool s"
  "fst (pool_Get (putResponse p s)) = p"
  by (simp_all add: putResponse_def pool_Put_def pool_Get_def)

text \<open>
  C10. On a cache hit \<open>GetCachedResponse\<close> returns a response that the deferred
  \<open>putResponse\<close> has already released: in the world at the point of return its header
  map is empty (the \<open>Status-Text\<close> header that \<open>newPooledCacheResponse\<close> had set is gone),
  it heads the free list of the pool, and the next \<open>Get\<close> on the pool hands out this very
  object. Status code and body are still those of the synthesis.
\<close>

theorem cache_hit_response_already_released:
  assumes "cache_Get (cache s) (now s) (generateCacheKey parse req options) = Some code"
  shows "\<exists>p s1 s'.
      newPooledCacheResponse (go_rem code 1000) (StatusText (go_rem code 1000))
          (emit (CacheGet (generateCacheKey parse req options)) s) = (p, s1)
    \<and> mapIndex (RespHeader (heap s1 p)) ''Status-Text'' = [StatusText (go_rem code 1000)]
    \<and> GetCachedResponse parse a req options s = (Inr p, s')
    \<and> s' = putResponse p s1
    \<and> RespHeader (heap s' p) = []
    \<and> mapIndex (RespHeader (heap s' p)) ''Status-Text'' = []
    \<and> pool s' = p # pool s1
    \<and> fst (pool_Get s') = p
    \<and> StatusCode (heap s' p) = go_rem code 1000
    \<and> RespBody (heap s' p) = StatusText (go_rem code 1000)"
proof -
  obtain p s1 where n: "newPooledCacheResponse (go_rem code 1000) (StatusText (go_rem code 1000))
      (emit (CacheGet (generateCacheKey parse req options)) s) = (p, s1)"
    by (cases "newPooledCacheResponse (go_rem code 1000) (StatusText (go_rem code 1000))
      (emit (CacheGet (generateCacheKey parse req options)) s)")
  have "GetCachedResponse parse a req options s = (Inr p, putResponse p s1)"
    by (simp add: GetCachedResponse_hit [OF assms] n)
  moreover have "mapIndex (RespHeader (heap s1 p)) ''Status-Text'' = [StatusText (go_rem code 1000)]"
    using newPooledCacheResponse_result(3) [OF n] by simp
  ultimately show ?thesis
    using n newPooledCacheResponse_result(1,2) [OF n]
    by (simp add: putResponse_result mapIndex_def)
qed

lemma warmWorld_hit:
  "cache_Get (cache warmWorld) (now warmWorld)
     (generateCacheKey parseOriginForm (exampleRequest ''POST'' ''/login'' [])
        (CacheKey CreateConfig)) = Some 403"
  by (simp add: warmWorld_def cache_Get_def cache_SetDefault_def emptyWorld_def cache_New_def
      Minute_def Second_def)

theorem cache_hit_response_already_released_witness:
  "cache_Get (cache warmWorld) (now warmWorld)
     (generateCacheKey parseOriginForm (exampleRequest ''POST'' ''/login'' [])
        (CacheKey CreateConfig)) = Some 403
   \<and> (case GetCachedResponse parseOriginForm (examplePlugin 1024 wafDown)
            (exampleRequest ''POST'' ''/login'' []) (CacheKey CreateConfig) warmWorld of
        (Inl err, s') \<Rightarrow> False
      | (Inr p, s') \<Rightarrow>
          heap s' p = \<lparr>StatusCode = 403, RespHeader = [], RespBody = ''Forbidden''\<rparr>
          \<and> pool s' = p # pool warmWorld \<and> fst (pool_Get s') = p)"
proof -
  let ?k = "generateCacheKey parseOriginForm (exampleRequest ''POST'' ''/login'' [])
        (CacheKey CreateConfig)"
  from cache_hit_response_already_released [OF warmWorld_hit, of "examplePlugin 1024 wafDown"]
  obtain p s1 s' where r:
    "newPooledCacheResponse (go_rem 403 1000) (StatusText (go_rem 403 1000))
       (emit (CacheGet ?k) warmWorld) = (p, s1)"
    "GetCachedResponse parseOriginForm (examplePlugin 1024 wafDown)
       (exampleRequest ''POST'' ''/login'' []) (CacheKey CreateConfig) warmWorld = (Inr p, s')"
    "RespHeader (heap s' p) = []" "pool s' = p # pool s1" "fst (pool_Get s') = p"
    "StatusCode (heap s' p) = go_rem 403 1000"
    "RespBody (heap s' p) = StatusText (go_rem 403 1000)"
    by blast
  have "pool s1 = pool warmWorld"
    using r(1)
    by (auto simp add: newPooledCacheResponse_def pool_Get_def alloc_def Let_def warmWorld_def
        emptyWorld_def split: prod.splits)
  moreover have "heap s' p = \<lparr>StatusCode = 403, RespHeader = [], RespBody = ''Forbidden''\<rparr>"
    using r(3,6,7) by (cases "heap s' p") (simp add: go_rem_def StatusText_def statusTexts_def)
  ultimately show ?thesis
    using warmWorld_hit r(2,4,5) by simp
qed

section \<open>Applying the verdict\<close>







lemma parseOriginForm_attack:
  "parseOriginForm ''http://waf:80/website?test=../etc''
   = Inr \<lparr>BeforeQuery = ''http://waf:80/website'', ForceQuery = False,
          RawQuery = ''test=../etc'', AfterQuery = []\<rparr>"
  by code_simp



lemma emptyWorld_miss: "cache_Get (cache emptyWorld) (now emptyWorld) k = None"
  by (simp add: cache_Get_def emptyWorld_def cache_New_def)

lemma example_GET_eligible:
  "Check (cacheConditions (examplePlugin m roundTrip)) (exampleRequest ''GET'' uri [])"
  by (simp add: Check_def examplePlugin_def CreateConfig_def boolPtr_def exampleRequest_def)

lemma example_forward:
  assumes "parseOriginForm (''http://waf:80'' @ uri) = Inr u"
    and "roundTrip \<lparr>pMethod = ''GET'', pURL = ''http://waf:80'' @ uri,
           pHeader = [(''User-Agent'', [''curl''])], pBody = [], pBodyErr = None\<rparr> = Inr resp"
  shows "PrepareForwardedRequest parseOriginForm (examplePlugin m roundTrip)
           (exampleRequest ''GET'' uri []) s
         = (Inr (allocated s),
            (emit (EvaluationCall \<lparr>pMethod = ''GET'', pURL = ''http://waf:80'' @ uri,
                pHeader = [(''User-Agent'', [''curl''])], pBody = [], pBodyErr = None\<rparr>) s)
              \<lparr>heap := (heap s)(allocated s := resp), allocated := Suc (allocated s)\<rparr>)"
  using assms
  by (simp add: PrepareForwardedRequest_def NewRequestWithContext_def validMethod_def
      validHeaderFieldByte_def examplePlugin_def exampleRequest_def alloc_def emit_def)

lemma example_verdict_cold:
  assumes "parseOriginForm (''http://waf:80'' @ uri) = Inr u"
    and "roundTrip \<lparr>pMethod = ''GET'', pURL = ''http://waf:80'' @ uri,
           pHeader = [(''User-Agent'', [''curl''])], pBody = [], pBodyErr = None\<rparr> = Inr resp"
  shows "\<exists>s1. HandleCacheAndForwardRequest parseOriginForm (examplePlugin m roundTrip)
           (exampleRequest ''GET'' uri []) emptyWorld = (Inr 0, s1) \<and> heap s1 0 = resp
           \<and> filter isBackendCall (trace s1) = []"
proof -
  have key: "cacheKey (examplePlugin m roundTrip) = CacheKey CreateConfig"
    "cacheEnabled (examplePlugin m roundTrip)"
    by (simp_all add: examplePlugin_def)
  show ?thesis
    by (simp add: HandleCacheAndForwardRequest_def example_GET_eligible key
        GetCachedResponse_miss [OF emptyWorld_miss] example_forward [where roundTrip = roundTrip, OF assms])
       (simp add: emptyWorld_def isBackendCall_def)
qed


section \<open>Two requests in a row\<close>

lemma go_rem_small: "0 \<le> x \<Longrightarrow> x < 1000 \<Longrightarrow> go_rem x 1000 = x"
  by (cases "x = 0") (simp_all add: go_rem_def)

lemma cache_Get_after_SetDefault:
  assumes "t \<le> now0 + defaultExpiration c"
  shows "cache_Get (cache_SetDefault c now0 k x) t k = Some x"
  using assms by (simp add: cache_Get_def cache_SetDefault_def Let_def)

lemma PrepareForwardedRequest_success:
  assumes "PrepareForwardedRequest parse a req s = (Inr p, s1)"
  shows "\<exists>pr. trace s1 = trace s @ [EvaluationCall pr]"
    and "cache s1 = cache s" and "now s1 = now s"
  using assms
  by (auto simp add: PrepareForwardedRequest_def Let_def alloc_def
      split: sum.splits prod.splits)

lemma HandleCacheAndForwardRequest_eligible:
  assumes "cacheEnabled a" and "Check (cacheConditions a) req"
  shows "HandleCacheAndForwardRequest parse a req s = GetCachedResponse parse a req (cacheKey a) s"
  using assms
  by (cases "GetCachedResponse parse a req (cacheKey a) s")
     (auto simp add: HandleCacheAndForwardRequest_def split: sum.splits)

lemma generateCacheKey_same_attributes:
  assumes "isTrue (IncludeMethod options) \<longrightarrow> Method r2 = Method r1"
    and "isTrue (IncludeRequestURI options) \<longrightarrow> RequestURI r2 = RequestURI r1"
    and "isTrue (IncludeHeaders options) \<longrightarrow> Header r2 = Header r1"
    and "isTrue (IncludeHost options) \<longrightarrow> Host r2 = Host r1"
    and "isTrue (IncludeRemoteAddress options) \<longrightarrow> RemoteAddr r2 = RemoteAddr r1"
  shows "generateCacheKey parse r2 options = generateCacheKey parse r1 options"
  using assms by (simp add: generateCacheKey_def hasherInput_def)

text \<open>
  Two requests in a row that pass the eligibility check of an enabled cache and agree
  in every attribute the key is made of: method, request URI, host and remote address as
  far as the options include them, and, if the headers are included, the header map as
  the loop over it visits it. The cache holds no live entry for their key when the first
  arrives, the evaluation service answers the first with a status between 0 and 999, and
  the second arrives at a time \<open>t\<close> within the time-to-live of the entry the first has
  written. Then the second is answered from the cache: its response has the status code
  of the first response and the standard phrase of that code as its body, and over the
  two requests the evaluation service has been called exactly once.
\<close>

lemma second_request_hit:
  assumes "cacheEnabled a"
    and "Check (cacheConditions a) r1" and "Check (cacheConditions a) r2"
    and "isTrue (IncludeMethod (cacheKey a)) \<longrightarrow> Method r2 = Method r1"
    and "isTrue (IncludeRequestURI (cacheKey a)) \<longrightarrow> RequestURI r2 = RequestURI r1"
    and "isTrue (IncludeHeaders (cacheKey a)) \<longrightarrow> Header r2 = Header r1"
    and "isTrue (IncludeHost (cacheKey a)) \<longrightarrow> Host r2 = Host r1"
    and "isTrue (IncludeRemoteAddress (cacheKey a)) \<longrightarrow> RemoteAddr r2 = RemoteAddr r1"
    and "cache_Get (cache s) (now s) (generateCacheKey parse r1 (cacheKey a)) = None"
    and "HandleCacheAndForwardRequest parse a r1 s = (Inr p1, s1)"
    and "0 \<le> StatusCode (heap s1 p1)" and "StatusCode (heap s1 p1) < 1000"
    and "t \<le> now s + defaultExpiration (cache s)"
  shows "\<exists>p2 s2. HandleCacheAndForwardRequest parse a r2 (s1\<lparr>now := t\<rparr>) = (Inr p2, s2)
      \<and> StatusCode (heap s2 p2) = StatusCode (heap s1 p1)
      \<and> RespBody (heap s2 p2) = StatusText (StatusCode (heap s1 p1))
      \<and> length (filter isEvaluationCall (trace s2))
          = length (filter isEvaluationCall (trace s)) + 1"
proof -
  define k where "k = generateCacheKey parse r1 (cacheKey a)"
  define code where "code = StatusCode (heap s1 p1)"
  have k2: "generateCacheKey parse r2 (cacheKey a) = k"
    unfolding k_def by (rule generateCacheKey_same_attributes [OF assms(4-8)])
  have miss: "cache_Get (cache s) (now s) (generateCacheKey parse r1 (cacheKey a)) = None"
    by (rule assms(9))
  \<comment> \<open>the first request: a miss, forwarded, and its status stored\<close>
  have first: "GetCachedResponse parse a r1 (cacheKey a) s = (Inr p1, s1)"
    using assms(10) by (simp add: HandleCacheAndForwardRequest_eligible [OF assms(1,2)])
  obtain res s0 where fwd: "PrepareForwardedRequest parse a r1 (emit (CacheGet k) s) = (res, s0)"
    by (cases "PrepareForwardedRequest parse a r1 (emit (CacheGet k) s)")
  have res: "res = Inr p1"
    and s1: "s1 = (emit (CacheSet k (go_rem (StatusCode (heap s0 p1)) 1000)) s0)
                     \<lparr>cache := cache_SetDefault (cache s0) (now s0) k
                         (go_rem (StatusCode (heap s0 p1)) 1000)\<rparr>"
    using first by (auto simp add: GetCachedResponse_miss [OF miss] k_def [symmetric] fwd
        split: sum.splits)
  have fwd': "PrepareForwardedRequest parse a r1 (emit (CacheGet k) s) = (Inr p1, s0)"
    using fwd res by simp
  from PrepareForwardedRequest_success [OF fwd']
  obtain pr where tr0: "trace s0 = trace s @ [CacheGet k, EvaluationCall pr]"
    and c0: "cache s0 = cache s" and n0: "now s0 = now s"
    by auto
  have heap1: "heap s1 = heap s0" by (simp add: s1)
  have stored: "go_rem (StatusCode (heap s0 p1)) 1000 = code"
    using assms(11,12) by (simp add: heap1 [symmetric] code_def go_rem_small)
  have tr1: "trace s1 = trace s @ [CacheGet k, EvaluationCall pr, CacheSet k code]"
    by (simp add: s1 stored tr0)
  have cache1: "cache s1 = cache_SetDefault (cache s) (now s) k code"
    by (simp add: s1 stored c0 n0)
  \<comment> \<open>the second request: a hit\<close>
  let ?s1 = "s1\<lparr>now := t\<rparr>"
  have hit: "cache_Get (cache ?s1) (now ?s1) (generateCacheKey parse r2 (cacheKey a)) = Some code"
    by (simp add: k2 cache1 cache_Get_after_SetDefault [OF assms(13)])
  have code: "go_rem code 1000 = code"
    using assms(11,12) by (simp add: code_def go_rem_small)
  obtain p2 s2 where pooled: "newPooledCacheResponse code (StatusText code)
      (emit (CacheGet k) ?s1) = (p2, s2)"
    by (cases "newPooledCacheResponse code (StatusText code) (emit (CacheGet k) ?s1)")
  have second: "HandleCacheAndForwardRequest parse a r2 ?s1 = (Inr p2, putResponse p2 s2)"
    by (simp add: HandleCacheAndForwardRequest_eligible [OF assms(1,3)]
        GetCachedResponse_hit [OF hit] k2 code pooled)
  have tr2: "trace (putResponse p2 s2) = trace s1 @ [CacheGet k]"
    using newPooledCacheResponse_frame [of code "StatusText code" "emit (CacheGet k) ?s1"]
    by (simp add: pooled putResponse_frame)
  have "StatusCode (heap (putResponse p2 s2) p2) = code"
    and "RespBody (heap (putResponse p2 s2) p2) = StatusText code"
    using newPooledCacheResponse_result(1,2) [OF pooled] by (simp_all add: putResponse_result)
  moreover have "length (filter isEvaluationCall (trace (putResponse p2 s2)))
      = length (filter isEvaluationCall (trace s)) + 1"
    by (simp add: tr2 tr1 isEvaluationCall_def)
  ultimately show ?thesis
    using second by (simp add: code_def)
qed

lemma second_request_hit_example:
  "cacheEnabled (examplePlugin 1024 exampleWaf)
   \<and> Check (cacheConditions (examplePlugin 1024 exampleWaf))
        (exampleRequest ''GET'' ''/website?test=../etc'' [])
   \<and> cache_Get (cache emptyWorld) (now emptyWorld)
        (generateCacheKey parseOriginForm (exampleRequest ''GET'' ''/website?test=../etc'' [])
           (cacheKey (examplePlugin 1024 exampleWaf))) = None
   \<and> (1000000000 :: int) \<le> now emptyWorld + defaultExpiration (cache emptyWorld)
   \<and> (\<exists>p1 s1 p2 s2.
        HandleCacheAndForwardRequest parseOriginForm (examplePlugin 1024 exampleWaf)
          (exampleRequest ''GET'' ''/website?test=../etc'' []) emptyWorld = (Inr p1, s1)
      \<and> heap s1 p1 = \<lparr>StatusCode = 403, RespHeader = [(''Server'', [''Apache''])],
                        RespBody = ''Blocked''\<rparr>
      \<and> HandleCacheAndForwardRequest parseOriginForm (examplePlugin 1024 exampleWaf)
          (exampleRequest ''GET'' ''/website?test=../etc'' []) (s1\<lparr>now := 1000000000\<rparr>)
         = (Inr p2, s2)
      \<and> StatusCode (heap s2 p2) = 403
      \<and> RespBody (heap s2 p2) = ''Forbidden''
      \<and> length (filter isEvaluationCall (trace s2)) = 1)"
proof -
  let ?a = "examplePlugin 1024 exampleWaf"
  let ?r = "exampleRequest ''GET'' ''/website?test=../etc'' []"
  let ?blocked = "\<lparr>StatusCode = 403, RespHeader = [(''Server'', [''Apache''])], RespBody = ''Blocked''\<rparr>"
  have h1: "cacheEnabled ?a" by (simp add: examplePlugin_def)
  note h2 = example_GET_eligible [of 1024 exampleWaf "''/website?test=../etc''"]
  note h9 = emptyWorld_miss [of "generateCacheKey parseOriginForm ?r (cacheKey ?a)"]
  obtain s1 where h10: "HandleCacheAndForwardRequest parseOriginForm ?a ?r emptyWorld = (Inr 0, s1)"
    and r: "heap s1 0 = ?blocked"
    using example_verdict_cold [of "''/website?test=../etc''" _ exampleWaf ?blocked 1024]
    by (auto simp add: parseOriginForm_attack exampleWaf_def wafAnswers_def)
  have h11: "0 \<le> StatusCode (heap s1 0)" and h12: "StatusCode (heap s1 0) < 1000"
    by (simp_all add: r)
  have h4: "isTrue (IncludeMethod (cacheKey ?a)) \<longrightarrow> Method ?r = Method ?r"
    and h5: "isTrue (IncludeRequestURI (cacheKey ?a)) \<longrightarrow> RequestURI ?r = RequestURI ?r"
    and h6: "isTrue (IncludeHeaders (cacheKey ?a)) \<longrightarrow> Header ?r = Header ?r"
    and h7: "isTrue (IncludeHost (cacheKey ?a)) \<longrightarrow> Host ?r = Host ?r"
    and h8: "isTrue (IncludeRemoteAddress (cacheKey ?a)) \<longrightarrow> RemoteAddr ?r = RemoteAddr ?r"
    by simp_all
  have h13: "(1000000000 :: int) \<le> now emptyWorld + defaultExpiration (cache emptyWorld)"
    by (simp add: emptyWorld_def cache_New_def Minute_def Second_def)
  from second_request_hit
    [OF h1 h2 h2 h4 h5 h6 h7 h8 h9 h10 h11 h12 h13]
  obtain p2 s2 where
    "HandleCacheAndForwardRequest parseOriginForm ?a ?r (s1\<lparr>now := 1000000000\<rparr>) = (Inr p2, s2)"
    "StatusCode (heap s2 p2) = 403" "RespBody (heap s2 p2) = ''Forbidden''"
    "length (filter isEvaluationCall (trace s2)) = 1"
    by (auto simp add: r StatusText_def statusTexts_def emptyWorld_def)
  then show ?thesis
    using h1 h2 h9 h13 h10 r by blast
qed

section \<open>Tracking parameters\<close>

















section \<open>Keys of concrete requests\<close>



lemma digest_agent_first:
  "sprintf_x (sha256 ''GET/aUser-AgentcurlAuthorizationBasic eA==example.com'')
   = ''b60fd068b04796170bd6c834299406ea3d68df84c22cc02344b5f2d5d822ca7f''"
  by code_simp

lemma digest_authorization_first:
  "sprintf_x (sha256 ''GET/aAuthorizationBasic eA==User-Agentcurlexample.com'')
   = ''4b98dbc917b50725a9af1757697250cd61a3ccb03016d8c68d3c4d244a999f48''"
  by code_simp

lemma key_agent_first:
  "generateCacheKey parseOriginForm agentFirst
     ((CacheKey CreateConfig)\<lparr>IncludeHeaders := boolPtr True\<rparr>)
   = ''b60fd068b04796170bd6c834299406ea3d68df84c22cc02344b5f2d5d822ca7f''"
proof -
  have uri: "removeTrackingParams parseOriginForm ''/a'' = ''/a''"
    by code_simp
  have "hasherInput parseOriginForm agentFirst
          ((CacheKey CreateConfig)\<lparr>IncludeHeaders := boolPtr True\<rparr>)
        = ''GET/aUser-AgentcurlAuthorizationBasic eA==example.com''"
    by (simp add: hasherInput_def CreateConfig_def boolPtr_def isTrue_def exampleRequest_def
        agentFirst_def uri headerBytes_def)
  then show ?thesis
    by (simp add: generateCacheKey_def digest_agent_first)
qed

lemma key_authorization_first:
  "generateCacheKey parseOriginForm authorizationFirst
     ((CacheKey CreateConfig)\<lparr>IncludeHeaders := boolPtr True\<rparr>)
   = ''4b98dbc917b50725a9af1757697250cd61a3ccb03016d8c68d3c4d244a999f48''"
proof -
  have uri: "removeTrackingParams parseOriginForm ''/a'' = ''/a''"
    by code_simp
  have "hasherInput parseOriginForm authorizationFirst
          ((CacheKey CreateConfig)\<lparr>IncludeHeaders := boolPtr True\<rparr>)
        = ''GET/aAuthorizationBasic eA==User-Agentcurlexample.com''"
    by (simp add: hasherInput_def CreateConfig_def boolPtr_def isTrue_def exampleRequest_def
        authorizationFirst_def uri headerBytes_def)
  then show ?thesis
    by (simp add: generateCacheKey_def digest_authorization_first)
qed


section \<open>The order of the header map\<close>

text \<open>
  C1. The two requests below have the same method, request URI, host and remote address
  and the same header map; the loop over the map visits \<open>User-Agent\<close> first for one and
  \<open>Authorization\<close> first for the other. With the headers included in the key (the
  allow-list of \<open>CreateConfig\<close>, which holds both names) \<open>generateCacheKey\<close> gives two
  different keys.
\<close>

theorem key_depends_on_header_order:
  "Method agentFirst = Method authorizationFirst
   \<and> RequestURI agentFirst = RequestURI authorizationFirst
   \<and> Host agentFirst = Host authorizationFirst
   \<and> RemoteAddr agentFirst = RemoteAddr authorizationFirst
   \<and> map_of (Header agentFirst) = map_of (Header authorizationFirst)
   \<and> generateCacheKey parseOriginForm agentFirst
        ((CacheKey CreateConfig)\<lparr>IncludeHeaders := boolPtr True\<rparr>)
      = ''b60fd068b04796170bd6c834299406ea3d68df84c22cc02344b5f2d5d822ca7f''
   \<and> generateCacheKey parseOriginForm authorizationFirst
        ((CacheKey CreateConfig)\<lparr>IncludeHeaders := boolPtr True\<rparr>)
      = ''4b98dbc917b50725a9af1757697250cd61a3ccb03016d8c68d3c4d244a999f48''"
proof -
  have same_map: "map_of (Header agentFirst) = map_of (Header authorizationFirst)"
    by (rule ext) (simp add: agentFirst_def authorizationFirst_def)
  show ?thesis
    using same_map
    by (simp add: key_agent_first key_authorization_first)
       (simp add: agentFirst_def authorizationFirst_def)
qed

section \<open>Two requests with the same headers\<close>

lemma headerKeyPlugin_eligible:
  "Check (cacheConditions headerKeyPlugin) agentFirst"
  "Check (cacheConditions headerKeyPlugin) authorizationFirst"
  by (simp_all add: headerKeyPlugin_def examplePlugin_def Check_def CreateConfig_def boolPtr_def
      agentFirst_def authorizationFirst_def exampleRequest_def)

lemma headerKeyPlugin_fields:
  "cacheEnabled headerKeyPlugin"
  "cacheKey headerKeyPlugin = (CacheKey CreateConfig)\<lparr>IncludeHeaders := boolPtr True\<rparr>"
  "modSecurityUrl headerKeyPlugin = ''http://waf:80''"
  "Do (httpClient headerKeyPlugin) = wafAnswers 403 ''Blocked''"
  by (simp_all add: headerKeyPlugin_def examplePlugin_def)

lemma parseOriginForm_a:
  "parseOriginForm ''http://waf:80/a''
   = Inr \<lparr>BeforeQuery = ''http://waf:80/a'', ForceQuery = False, RawQuery = [],
          AfterQuery = []\<rparr>"
  by code_simp

text \<open>What the verdict sub-pipeline of this plugin does with a \<open>GET /a\<close> that is eligible
  and misses the cache: one call of the service, and the status 403 stored under the key.\<close>

lemma headerKeyPlugin_miss:
  assumes "Check (cacheConditions headerKeyPlugin) req"
    and "Method req = ''GET''" and "RequestURI req = ''/a''"
    and "generateCacheKey parseOriginForm req (cacheKey headerKeyPlugin) = k"
    and "cache_Get (cache s) (now s) k = None"
  shows "HandleCacheAndForwardRequest parseOriginForm headerKeyPlugin req s
    = (Inr (allocated s),
       s\<lparr>cache := cache_SetDefault (cache s) (now s) k 403,
         heap := (heap s)(allocated s :=
           \<lparr>StatusCode = 403, RespHeader = [(''Server'', [''Apache''])], RespBody = ''Blocked''\<rparr>),
         allocated := Suc (allocated s),
         trace := trace s @
           [CacheGet k,
            EvaluationCall \<lparr>pMethod = ''GET'', pURL = ''http://waf:80/a'', pHeader = Header req,
              pBody = Body req, pBodyErr = BodyErr req\<rparr>,
            CacheSet k 403]\<rparr>)"
proof -
  have valid: "validMethod (Method req)"
    by (simp add: assms(2) validMethod_GET)
  have url: "parseOriginForm (modSecurityUrl headerKeyPlugin @ RequestURI req)
      = Inr \<lparr>BeforeQuery = ''http://waf:80/a'', ForceQuery = False, RawQuery = [],
             AfterQuery = []\<rparr>"
    by (simp add: assms(3) headerKeyPlugin_fields parseOriginForm_a)
  have miss: "cache_Get (cache s) (now s)
      (generateCacheKey parseOriginForm req (cacheKey headerKeyPlugin)) = None"
    by (simp add: assms(4,5))
  have "HandleCacheAndForwardRequest parseOriginForm headerKeyPlugin req s
      = GetCachedResponse parseOriginForm headerKeyPlugin req (cacheKey headerKeyPlugin) s"
    by (rule HandleCacheAndForwardRequest_eligible [OF headerKeyPlugin_fields(1) assms(1)])
  also have "\<dots> = (Inr (allocated s),
       s\<lparr>cache := cache_SetDefault (cache s) (now s) k 403,
         heap := (heap s)(allocated s :=
           \<lparr>StatusCode = 403, RespHeader = [(''Server'', [''Apache''])], RespBody = ''Blocked''\<rparr>),
         allocated := Suc (allocated s),
         trace := trace s @
           [CacheGet k,
            EvaluationCall \<lparr>pMethod = ''GET'', pURL = ''http://waf:80/a'', pHeader = Header req,
              pBody = Body req, pBodyErr = BodyErr req\<rparr>,
            CacheSet k 403]\<rparr>)"
    by (simp add: GetCachedResponse_miss [OF miss]
        PrepareForwardedRequest_sends [where parse = parseOriginForm, OF valid url]
        assms(2,3,4) headerKeyPlugin_fields(3,4) wafAnswers_def go_rem_def emit_def)
  finally show ?thesis .
qed

text \<open>
  C6. The plugin includes the headers in the cache key, and the evaluation service answers
  403 with the body \<open>Blocked\<close>. Two \<open>GET\<close> requests arrive one second apart, both eligible
  for the cache, with the same method, request URI, host, remote address and the same
  header map; the loop over the map visits \<open>User-Agent\<close> first for the first request and
  \<open>Authorization\<close> first for the second. The second request misses the cache: the
  evaluation service is called for each of the two, and the body of the second response
  is the body the service sent, not the standard phrase of the status 403, \<open>Forbidden\<close>.
\<close>

theorem same_headers_evaluated_twice:
  "cacheEnabled headerKeyPlugin
   \<and> Check (cacheConditions headerKeyPlugin) agentFirst
   \<and> Check (cacheConditions headerKeyPlugin) authorizationFirst
   \<and> Method authorizationFirst = Method agentFirst
   \<and> RequestURI authorizationFirst = RequestURI agentFirst
   \<and> Host authorizationFirst = Host agentFirst
   \<and> RemoteAddr authorizationFirst = RemoteAddr agentFirst
   \<and> map_of (Header authorizationFirst) = map_of (Header agentFirst)
   \<and> fst (HandleCacheAndForwardRequest parseOriginForm headerKeyPlugin agentFirst emptyWorld)
     = Inr 0
   \<and> heap (snd (HandleCacheAndForwardRequest parseOriginForm headerKeyPlugin agentFirst
        emptyWorld)) 0
     = \<lparr>StatusCode = 403, RespHeader = [(''Server'', [''Apache''])], RespBody = ''Blocked''\<rparr>
   \<and> fst (HandleCacheAndForwardRequest parseOriginForm headerKeyPlugin authorizationFirst
        ((snd (HandleCacheAndForwardRequest parseOriginForm headerKeyPlugin agentFirst
            emptyWorld))\<lparr>now := Second\<rparr>))
     = Inr 1
   \<and> heap (snd (HandleCacheAndForwardRequest parseOriginForm headerKeyPlugin authorizationFirst
        ((snd (HandleCacheAndForwardRequest parseOriginForm headerKeyPlugin agentFirst
            emptyWorld))\<lparr>now := Second\<rparr>))) 1
     = \<lparr>StatusCode = 403, RespHeader = [(''Server'', [''Apache''])], RespBody = ''Blocked''\<rparr>
   \<and> StatusText 403 = ''Forbidden''
   \<and> filter isEvaluationCall
       (trace (snd (HandleCacheAndForwardRequest parseOriginForm headerKeyPlugin
          authorizationFirst
          ((snd (HandleCacheAndForwardRequest parseOriginForm headerKeyPlugin agentFirst
              emptyWorld))\<lparr>now := Second\<rparr>))))
     = [EvaluationCall \<lparr>pMethod = ''GET'', pURL = ''http://waf:80/a'',
          pHeader = [(''User-Agent'', [''curl'']), (''Authorization'', [''Basic eA==''])],
          pBody = [], pBodyErr = None\<rparr>,
        EvaluationCall \<lparr>pMethod = ''GET'', pURL = ''http://waf:80/a'',
          pHeader = [(''Authorization'', [''Basic eA=='']), (''User-Agent'', [''curl''])],
          pBody = [], pBodyErr = None\<rparr>]"
proof -
  let ?k1 = "''b60fd068b04796170bd6c834299406ea3d68df84c22cc02344b5f2d5d822ca7f''"
  let ?k2 = "''4b98dbc917b50725a9af1757697250cd61a3ccb03016d8c68d3c4d244a999f48''"
  let ?blocked = "\<lparr>StatusCode = 403, RespHeader = [(''Server'', [''Apache''])],
      RespBody = ''Blocked''\<rparr>"
  let ?s1 = "emptyWorld\<lparr>cache := cache_SetDefault (cache emptyWorld) (now emptyWorld) ?k1 403,
         heap := (heap emptyWorld)(allocated emptyWorld := ?blocked),
         allocated := Suc (allocated emptyWorld),
         trace := trace emptyWorld @
           [CacheGet ?k1,
            EvaluationCall \<lparr>pMethod = ''GET'', pURL = ''http://waf:80/a'',
              pHeader = Header agentFirst, pBody = Body agentFirst,
              pBodyErr = BodyErr agentFirst\<rparr>,
            CacheSet ?k1 403]\<rparr>"
  have same: "Method authorizationFirst = Method agentFirst"
    "RequestURI authorizationFirst = RequestURI agentFirst"
    "Host authorizationFirst = Host agentFirst"
    "RemoteAddr authorizationFirst = RemoteAddr agentFirst"
    by (simp_all add: agentFirst_def authorizationFirst_def)
  have same_map: "map_of (Header authorizationFirst) = map_of (Header agentFirst)"
    by (rule ext) (simp add: agentFirst_def authorizationFirst_def)
  have get: "Method agentFirst = ''GET''" "RequestURI agentFirst = ''/a''"
    "Method authorizationFirst = ''GET''" "RequestURI authorizationFirst = ''/a''"
    by (simp_all add: agentFirst_def authorizationFirst_def exampleRequest_def)
  have k1: "generateCacheKey parseOriginForm agentFirst (cacheKey headerKeyPlugin) = ?k1"
    by (simp add: headerKeyPlugin_fields(2) key_agent_first)
  have k2: "generateCacheKey parseOriginForm authorizationFirst (cacheKey headerKeyPlugin) = ?k2"
    by (simp add: headerKeyPlugin_fields(2) key_authorization_first)
  have cold: "cache_Get (cache emptyWorld) (now emptyWorld) ?k1 = None"
    by (rule emptyWorld_miss)
  have first: "HandleCacheAndForwardRequest parseOriginForm headerKeyPlugin agentFirst emptyWorld
      = (Inr (allocated emptyWorld), ?s1)"
    by (rule headerKeyPlugin_miss [OF headerKeyPlugin_eligible(1) get(1,2) k1 cold])
  have other_key: "cache_Get (cache (?s1\<lparr>now := Second\<rparr>)) (now (?s1\<lparr>now := Second\<rparr>)) ?k2 = None"
    by (simp add: cache_Get_def cache_SetDefault_def emptyWorld_def cache_New_def Let_def)
  note second = headerKeyPlugin_miss [OF headerKeyPlugin_eligible(2) get(3,4) k2 other_key]
  have forbidden: "StatusText 403 = ''Forbidden''"
    by (simp add: StatusText_def statusTexts_def)
  have a: "fst (HandleCacheAndForwardRequest parseOriginForm headerKeyPlugin agentFirst
        emptyWorld) = Inr 0"
    "heap (snd (HandleCacheAndForwardRequest parseOriginForm headerKeyPlugin agentFirst
        emptyWorld)) 0 = ?blocked"
    by (simp_all add: first) (simp_all add: emptyWorld_def)
  have b: "fst (HandleCacheAndForwardRequest parseOriginForm headerKeyPlugin authorizationFirst
        ((snd (HandleCacheAndForwardRequest parseOriginForm headerKeyPlugin agentFirst
            emptyWorld))\<lparr>now := Second\<rparr>)) = Inr 1"
    "heap (snd (HandleCacheAndForwardRequest parseOriginForm headerKeyPlugin authorizationFirst
        ((snd (HandleCacheAndForwardRequest parseOriginForm headerKeyPlugin agentFirst
            emptyWorld))\<lparr>now := Second\<rparr>))) 1 = ?blocked"
    by (simp_all add: first second) (simp_all add: emptyWorld_def)
  have c: "filter isEvaluationCall
       (trace (snd (HandleCacheAndForwardRequest parseOriginForm headerKeyPlugin
          authorizationFirst
          ((snd (HandleCacheAndForwardRequest parseOriginForm headerKeyPlugin agentFirst
              emptyWorld))\<lparr>now := Second\<rparr>))))
     = [EvaluationCall \<lparr>pMethod = ''GET'', pURL = ''http://waf:80/a'',
          pHeader = [(''User-Agent'', [''curl'']), (''Authorization'', [''Basic eA==''])],
          pBody = [], pBodyErr = None\<rparr>,
        EvaluationCall \<lparr>pMethod = ''GET'', pURL = ''http://waf:80/a'',
          pHeader = [(''Authorization'', [''Basic eA=='']), (''User-Agent'', [''curl''])],
          pBody = [], pBodyErr = None\<rparr>]"
    by (simp add: first second isEvaluationCall_def)
       (simp add: emptyWorld_def agentFirst_def authorizationFirst_def exampleRequest_def)
  show ?thesis
    using headerKeyPlugin_fields(1) headerKeyPlugin_eligible same same_map forbidden a b c
    by blast
qed

end
